theory Spec2Isabelle
  imports Main "HOL-Library.Sublist"
begin

section \<open>Strings and numbers of the host language\<close>

text \<open>
  A string is a list of 8-bit characters; each character stands for the code unit of the
  same number, so the model covers text whose code units lie in U+0000..U+00FF. An
  \<open>Error\<close> object is its message, a string: the clients build every failure as
  \<open>new Error(message)\<close> and re-throw it as \<open>new Error(prefix + error.message)\<close>.
  A fallible operation returns \<open>string + 'a\<close>, with \<open>Inl\<close> the message thrown.
\<close>

type_synonym error = string

text \<open>\<open>s.startsWith(p)\<close> and \<open>s.includes(p)\<close>.\<close>

fun starts_with :: "string \<Rightarrow> string \<Rightarrow> bool" where
  "starts_with s [] = True"
| "starts_with [] (p # ps) = False"
| "starts_with (c # cs) (p # ps) = (c = p \<and> starts_with cs ps)"

fun str_includes :: "string \<Rightarrow> string \<Rightarrow> bool" where
  "str_includes [] p = (p = [])"
| "str_includes (c # cs) p = (starts_with (c # cs) p \<or> str_includes cs p)"

text \<open>The decimal rendering of a number inside a template literal.\<close>

definition digit_char :: "nat \<Rightarrow> char" where
  "digit_char n = ''0123456789'' ! n"

fun show_nat :: "nat \<Rightarrow> string" where
  "show_nat n = (if n < 10 then [digit_char n] else show_nat (n div 10) @ [digit_char (n mod 10)])"

declare show_nat.simps [simp del]

text \<open>
  A number is a finite integer or \<open>NaN\<close>. Integers are exact here; the rounding of
  values beyond \<open>2^53\<close> is not modelled.
\<close>

datatype number = NaN | Finite int

definition show_number :: "number \<Rightarrow> string" where
  "show_number n = (case n of
      NaN \<Rightarrow> ''NaN''
    | Finite i \<Rightarrow> (if i < 0 then CHR ''-'' # show_nat (nat (- i)) else show_nat (nat i)))"

text \<open>The character classes \<open>\s\<close> (also the set that \<open>trim\<close> and \<open>parseInt\<close> skip),
  \<open>\d\<close>, and the line terminators that \<open>.\<close> refuses.\<close>

definition is_space :: "char \<Rightarrow> bool" where
  "is_space c = (c \<in> {CHR 0x09, CHR 0x0A, CHR 0x0B, CHR 0x0C, CHR 0x0D, CHR 0x20, CHR 0xA0})"

definition is_digit :: "char \<Rightarrow> bool" where
  "is_digit c = (c \<in> set ''0123456789'')"

definition is_line_terminator :: "char \<Rightarrow> bool" where
  "is_line_terminator c = (c = CHR 0x0A \<or> c = CHR 0x0D)"

definition trim :: "string \<Rightarrow> string" where
  "trim s = rev (dropWhile is_space (rev (dropWhile is_space s)))"

section \<open>Transport adapter\<close>

text \<open>
  What the wire delivers for one request: a transport failure with the HTTP library's
  message (timeout, connection refused, DNS), or a response with a status and a body.
\<close>

datatype 'd outcome = NetworkError string | Response nat 'd

datatype param = PStr string | PBool bool | PNum int

record request =
  url :: string
  params :: "(string \<times> param) list"

record 'd axios_response =
  status :: nat
  data :: 'd

text \<open>
  The upstream answers a request knowing the requests sent before it. An operation takes
  the log of requests sent so far and returns it extended by its own calls.
\<close>

type_synonym 'd upstream = "request list \<Rightarrow> request \<Rightarrow> 'd outcome"

record axios_config =
  baseURL :: string
  timeout :: nat
  validateStatus :: "nat \<Rightarrow> bool"

text \<open>\<open>baseUrl.replace(/\/$/, '')\<close>: one trailing slash is removed.\<close>

definition strip_trailing_slash :: "string \<Rightarrow> string" where
  "strip_trailing_slash s = (if s \<noteq> [] \<and> last s = CHR ''/'' then butlast s else s)"

text \<open>The three configurations, as the constructors build them (headers, credentials
  and the redirect limit change what the upstream sees, not how the client classifies a
  response). The credential holder's client sets no base URL and no timeout.\<close>

definition html_client_config :: "string \<Rightarrow> axios_config" where
  "html_client_config baseUrl =
     \<lparr>baseURL = strip_trailing_slash baseUrl, timeout = 30000,
      validateStatus = (\<lambda>status. True)\<rparr>"

definition api_client_config :: "string \<Rightarrow> axios_config" where
  "api_client_config baseUrl =
     \<lparr>baseURL = strip_trailing_slash baseUrl @ ''/api/v1'', timeout = 30000,
      validateStatus = (\<lambda>status. status \<ge> 200 \<and> status < 500)\<rparr>"

definition auth_client_config :: "axios_config" where
  "auth_client_config = \<lparr>baseURL = [], timeout = 0, validateStatus = (\<lambda>status. True)\<rparr>"

text \<open>
  The HTTP library settles a request: a transport failure is thrown; a response whose
  status the \<open>validateStatus\<close> policy rejects is thrown as well; any other response is
  returned to the caller.
\<close>

definition settle :: "axios_config \<Rightarrow> 'd outcome \<Rightarrow> error + 'd axios_response" where
  "settle cfg out = (case out of
      NetworkError m \<Rightarrow> Inl m
    | Response s d \<Rightarrow>
        if validateStatus cfg s then Inr \<lparr>status = s, data = d\<rparr>
        else Inl (''Request failed with status code '' @ show_nat s))"

definition client_get ::
  "axios_config \<Rightarrow> 'd upstream \<Rightarrow> request \<Rightarrow> request list
     \<Rightarrow> (error + 'd axios_response) \<times> request list" where
  "client_get cfg up req log = (settle cfg (up log req), log @ [req])"

section \<open>Results of the facade\<close>

text \<open>
  The two facade classes carry the same name and the same method names; here the methods
  of the html-scrape class are prefixed \<open>html_\<close>, those of the rest-api class \<open>rest_\<close>,
  and those of \<open>OpenGrokApiClient\<close> \<open>api_\<close>. A field whose name is taken (the \<open>line\<close> of
  a hit and of a cross-reference, \<open>file\<close>, \<open>type\<close>, \<open>symbol\<close>, the \<open>path\<close> and \<open>project\<close> of
  a file content) carries a prefix.
\<close>

record SearchResult =
  path :: string
  line :: number
  snippet :: string
  project :: string

datatype reference_type = definition_type | reference_type

record CrossReference =
  ref_symbol :: string
  ref_file :: string
  ref_line :: number
  ref_type :: reference_type

text \<open>\<open>try { ... } catch (error) { throw new Error(prefix + error.message) }\<close>.\<close>

definition rethrow :: "string \<Rightarrow> error + 'a \<Rightarrow> error + 'a" where
  "rethrow pre r = (case r of Inl m \<Rightarrow> Inl (pre @ m) | Inr v \<Rightarrow> Inr v)"

text \<open>\<open>xs.slice(0, n)\<close> for an integer \<open>n\<close>: a negative \<open>n\<close> counts from the end.\<close>

definition slice0 :: "'a list \<Rightarrow> int \<Rightarrow> 'a list" where
  "slice0 xs n = (if n \<ge> 0 then take (nat n) xs else take (length xs - nat (- n)) xs)"

text \<open>\<open>project || 'unknown'\<close>: the empty string is falsy.\<close>

definition or_unknown :: "string \<Rightarrow> string" where
  "or_unknown proj = (if proj \<noteq> [] then proj else ''unknown'')"

text \<open>
  \<open>parseInt(s, 10)\<close>: leading white space is skipped, one sign is read, then the longest
  run of decimal digits; without a digit the result is \<open>NaN\<close>.
\<close>

definition digit_value :: "char \<Rightarrow> nat" where
  "digit_value c = of_char c - 48"

definition digits_value :: "string \<Rightarrow> nat" where
  "digits_value ds = foldl (\<lambda>acc c. 10 * acc + digit_value c) 0 ds"

definition parseInt :: "string \<Rightarrow> number" where
  "parseInt s =
     (let t = dropWhile is_space s;
          negative = (t \<noteq> [] \<and> hd t = CHR ''-'');
          u = (if t \<noteq> [] \<and> (hd t = CHR ''-'' \<or> hd t = CHR ''+'') then tl t else t);
          ds = takeWhile is_digit u
      in if ds = [] then NaN
         else if negative then Finite (- int (digits_value ds))
         else Finite (int (digits_value ds)))"

section \<open>REST pipeline: search and its normalizer\<close>

text \<open>
  The declared shape of \<open>SearchResponse\<close>. The \<open>results\<close> object is the list of its
  entries in the order \<open>Object.entries\<close> yields them; as keys of one object, the file
  paths of that list are distinct.
\<close>

record search_hit =
  hit_line :: string
  lineNumber :: string
  tag :: string

record SearchResponse =
  time :: nat
  resultCount :: nat
  startDocument :: nat
  endDocument :: nat
  results :: "(string \<times> search_hit list) list"

text \<open>
  \<open>transformSearchResults\<close>, the inner loop over the hits of one file and the outer loop
  over the entries, each pushing onto \<open>results\<close>. The guard keeps a hit whose
  \<open>lineNumber\<close> and \<open>line\<close> are both truthy, that is, non-empty strings (the
  \<open>Array.isArray\<close> and \<open>typeof\<close> tests hold by the declared type). The source also
  computes a \<open>key\<close> from the path and the line number and never reads it.
\<close>

definition transform_hit :: "string \<Rightarrow> string \<Rightarrow> search_hit \<Rightarrow> SearchResult" where
  "transform_hit filePath proj hit =
     \<lparr>path = filePath,
      line = (if lineNumber hit \<noteq> [] then parseInt (lineNumber hit) else Finite 0),
      snippet = hit_line hit,
      project = or_unknown proj\<rparr>"

definition hit_accepted :: "search_hit \<Rightarrow> bool" where
  "hit_accepted hit = (lineNumber hit \<noteq> [] \<and> hit_line hit \<noteq> [])"

primrec transform_hits ::
  "string \<Rightarrow> string \<Rightarrow> search_hit list \<Rightarrow> SearchResult list \<Rightarrow> SearchResult list" where
  "transform_hits filePath proj [] acc = acc"
| "transform_hits filePath proj (hit # hits) acc =
     transform_hits filePath proj hits
       (if hit_accepted hit then acc @ [transform_hit filePath proj hit] else acc)"

primrec transform_entries ::
  "string \<Rightarrow> (string \<times> search_hit list) list \<Rightarrow> SearchResult list \<Rightarrow> SearchResult list" where
  "transform_entries proj [] acc = acc"
| "transform_entries proj (entry # entries) acc =
     transform_entries proj entries (transform_hits (fst entry) proj (snd entry) acc)"

definition transformSearchResults :: "SearchResponse \<Rightarrow> string \<Rightarrow> SearchResult list" where
  "transformSearchResults apiResponse proj = transform_entries proj (results apiResponse) []"

text \<open>\<open>if (v !== undefined) params.k = v\<close>.\<close>

definition opt_param :: "string \<Rightarrow> string option \<Rightarrow> (string \<times> param) list" where
  "opt_param k v = (case v of None \<Rightarrow> [] | Some x \<Rightarrow> [(k, PStr x)])"

text \<open>\<open>OpenGrokApiClient.search\<close>: one GET; every status other than 200 is thrown with
  the same message, and the catch prefixes whatever was thrown.\<close>

definition api_search ::
  "string \<Rightarrow> SearchResponse upstream \<Rightarrow> string option \<Rightarrow> string option \<Rightarrow> string option
     \<Rightarrow> string option \<Rightarrow> string option \<Rightarrow> string option \<Rightarrow> string option
     \<Rightarrow> string option \<Rightarrow> string option \<Rightarrow> string option \<Rightarrow> request list
     \<Rightarrow> (error + SearchResponse) \<times> request list" where
  "api_search baseUrl up p_full p_def p_symbol p_path p_hist p_type p_projects p_maxResults
       p_start p_sort log =
     (case client_get (api_client_config baseUrl) up
        \<lparr>url = ''/search'',
         params = opt_param ''full'' p_full @ opt_param ''def'' p_def
           @ opt_param ''symbol'' p_symbol @ opt_param ''path'' p_path
           @ opt_param ''hist'' p_hist @ opt_param ''type'' p_type
           @ opt_param ''projects'' p_projects @ opt_param ''maxresults'' p_maxResults
           @ opt_param ''start'' p_start @ opt_param ''sort'' p_sort\<rparr> log of
        (r, log') \<Rightarrow>
          (rethrow ''Search failed: ''
             (case r of
                Inl m \<Rightarrow> Inl m
              | Inr response \<Rightarrow>
                  if status response \<noteq> 200
                  then Inl (''Search failed with status '' @ show_nat (status response))
                  else Inr (data response)),
           log'))"

datatype search_type = search_full | search_defs | search_refs | search_path | search_hist

text \<open>\<open>if (language)\<close>: an absent or empty language sets no filter.\<close>

definition truthy :: "string option \<Rightarrow> bool" where
  "truthy v = (case v of None \<Rightarrow> False | Some x \<Rightarrow> x \<noteq> [])"

text \<open>\<open>OpenGrokClient.search\<close> of the rest-api facade. The project check is outside
  the \<open>try\<close>, so its message is not prefixed and no request is sent.\<close>

definition rest_search ::
  "string \<Rightarrow> SearchResponse upstream \<Rightarrow> string \<Rightarrow> string \<Rightarrow> search_type \<Rightarrow> string option
     \<Rightarrow> int \<Rightarrow> request list \<Rightarrow> (error + SearchResult list) \<times> request list" where
  "rest_search baseUrl up query proj searchType language maxResults log =
     (if proj = []
      then (Inl ''Project is required for OpenGrok search. Please specify a project.'', log)
      else
        (case api_search (strip_trailing_slash baseUrl) up
           (if searchType = search_full then Some query else None)
           (if searchType = search_defs then Some query else None)
           (if searchType = search_refs then Some query else None)
           (if searchType = search_path then Some query else None)
           (if searchType = search_hist then Some query else None)
           (if truthy language then language else None)
           (Some proj)
           (Some (show_number (Finite maxResults)))
           None None log of
          (r, log') \<Rightarrow>
            (rethrow ''OpenGrok search failed: ''
               (case r of
                  Inl m \<Rightarrow> Inl m
                | Inr response \<Rightarrow> Inr (slice0 (transformSearchResults response proj) maxResults)),
             log')))"

text \<open>\<open>OpenGrokClient.getCrossReferences\<close> of the rest-api facade: a symbol search whose
  hits with a truthy \<open>lineNumber\<close> all become records of type \<open>reference\<close>.\<close>

definition reference_of_hit :: "string \<Rightarrow> string \<Rightarrow> search_hit \<Rightarrow> CrossReference" where
  "reference_of_hit symb filePath hit =
     \<lparr>ref_symbol = symb, ref_file = filePath,
      ref_line = (if lineNumber hit \<noteq> [] then parseInt (lineNumber hit) else Finite 0),
      ref_type = reference_type\<rparr>"

primrec reference_hits ::
  "string \<Rightarrow> string \<Rightarrow> search_hit list \<Rightarrow> CrossReference list \<Rightarrow> CrossReference list" where
  "reference_hits symb filePath [] refs = refs"
| "reference_hits symb filePath (hit # hits) refs =
     reference_hits symb filePath hits
       (if lineNumber hit \<noteq> [] then refs @ [reference_of_hit symb filePath hit] else refs)"

primrec reference_entries ::
  "string \<Rightarrow> (string \<times> search_hit list) list \<Rightarrow> CrossReference list \<Rightarrow> CrossReference list" where
  "reference_entries symb [] refs = refs"
| "reference_entries symb (entry # entries) refs =
     reference_entries symb entries (reference_hits symb (fst entry) (snd entry) refs)"

definition rest_getCrossReferences ::
  "string \<Rightarrow> SearchResponse upstream \<Rightarrow> string \<Rightarrow> string option \<Rightarrow> request list
     \<Rightarrow> (error + CrossReference list) \<times> request list" where
  "rest_getCrossReferences baseUrl up symb proj log =
     (case api_search (strip_trailing_slash baseUrl) up None None (Some symb) None None None
             proj None None None log of
        (r, log') \<Rightarrow>
          (rethrow ''Failed to get cross-references: ''
             (case r of
                Inl m \<Rightarrow> Inl m
              | Inr response \<Rightarrow> Inr (reference_entries symb (results response) [])),
           log'))"

section \<open>REST client: liveness check\<close>

text \<open>\<open>OpenGrokApiClient.ping\<close>: any thrown error is caught and becomes \<open>false\<close>.\<close>

definition api_ping ::
  "string \<Rightarrow> 'd upstream \<Rightarrow> request list \<Rightarrow> (error + bool) \<times> request list" where
  "api_ping baseUrl up log =
     (case client_get (api_client_config baseUrl) up \<lparr>url = ''/system/ping'', params = []\<rparr> log of
        (Inl e, log') \<Rightarrow> (Inr False, log')
      | (Inr response, log') \<Rightarrow> (Inr (status response = 200), log'))"

text \<open>\<open>OpenGrokClient.ping\<close> (rest-api facade): a second catch around the first.\<close>

definition rest_ping ::
  "string \<Rightarrow> 'd upstream \<Rightarrow> request list \<Rightarrow> (error + bool) \<times> request list" where
  "rest_ping baseUrl up log =
     (case api_ping (strip_trailing_slash baseUrl) up log of
        (Inl e, log') \<Rightarrow> (Inr False, log')
      | (Inr alive, log') \<Rightarrow> (Inr alive, log'))"

definition outcome_status :: "'d outcome \<Rightarrow> nat option" where
  "outcome_status out = (case out of NetworkError m \<Rightarrow> None | Response s d \<Rightarrow> Some s)"

section \<open>HTML pipeline: pattern matching on markup\<close>

text \<open>
  The regular expressions of the html-scrape client are matched by hand-written
  matchers. Each \<open>match_..._here\<close> function matches one pattern at the head of its
  argument and returns the capture groups with the text after the match; \<open>find_first\<close>
  tries the start positions from left to right, as the regex engine does.
\<close>

fun strip_prefix :: "string \<Rightarrow> string \<Rightarrow> string option" where
  "strip_prefix [] s = Some s"
| "strip_prefix (p # ps) [] = None"
| "strip_prefix (p # ps) (c # cs) = (if p = c then strip_prefix ps cs else None)"

text \<open>The text before and after the first occurrence of a literal.\<close>

fun split_first :: "string \<Rightarrow> string \<Rightarrow> (string \<times> string) option" where
  "split_first pat [] = (if pat = [] then Some ([], []) else None)"
| "split_first pat (c # cs) =
     (case strip_prefix pat (c # cs) of
        Some r \<Rightarrow> Some ([], r)
      | None \<Rightarrow> (case split_first pat cs of
                   None \<Rightarrow> None
                 | Some (before, after) \<Rightarrow> Some (c # before, after)))"

fun find_first :: "(string \<Rightarrow> 'a option) \<Rightarrow> string \<Rightarrow> 'a option" where
  "find_first m [] = m []"
| "find_first m (c # cs) = (case m (c # cs) of Some r \<Rightarrow> Some r | None \<Rightarrow> find_first m cs)"

text \<open>
  \<open>/<a\s+class="s"\s+href="\/xref\/([^"]+?)#(\d+)"[^>]*>(.*?)<\/a>/\<close> at the head of
  a string. The quote that closes \<open>href\<close> is the first quote after \<open>/xref/\<close>, since
  neither group can hold a quote; the digits hold no \<open>#\<close>, so the text between is cut
  at its last \<open>#\<close>, and both parts must be non-empty. The tag ends at the next
  \<open>>\<close>. The lazy \<open>(.*?)\<close> ends at the first \<open></a>\<close>, and the snippet must not
  hold a line terminator, which \<open>.\<close> does not match.
\<close>

definition split_last_hash :: "string \<Rightarrow> (string \<times> string) option" where
  "split_last_hash run =
     (let r = rev run;
          d = takeWhile (\<lambda>c. c \<noteq> CHR ''#'') r;
          front = dropWhile (\<lambda>c. c \<noteq> CHR ''#'') r
      in if front = [] then None else Some (rev (tl front), rev d))"

definition match_result_here :: "string \<Rightarrow> ((string \<times> string \<times> string) \<times> string) option" where
  "match_result_here s =
     (case strip_prefix ''<a'' s of
        None \<Rightarrow> None
      | Some r1 \<Rightarrow>
          if takeWhile is_space r1 = [] then None
          else (case strip_prefix ''class=\"s\"'' (dropWhile is_space r1) of
            None \<Rightarrow> None
          | Some r2 \<Rightarrow>
              if takeWhile is_space r2 = [] then None
              else (case strip_prefix ''href=\"/xref/'' (dropWhile is_space r2) of
                None \<Rightarrow> None
              | Some r3 \<Rightarrow>
                  if dropWhile (\<lambda>c. c \<noteq> CHR ''\"'') r3 = [] then None
                  else (case split_last_hash (takeWhile (\<lambda>c. c \<noteq> CHR ''\"'') r3) of
                    None \<Rightarrow> None
                  | Some (filePath, digits) \<Rightarrow>
                      if filePath = [] \<or> digits = [] \<or> \<not> list_all is_digit digits then None
                      else if dropWhile (\<lambda>c. c \<noteq> CHR ''>'')
                                (tl (dropWhile (\<lambda>c. c \<noteq> CHR ''\"'') r3)) = [] then None
                      else (case split_first ''</a>''
                                  (tl (dropWhile (\<lambda>c. c \<noteq> CHR ''>'')
                                     (tl (dropWhile (\<lambda>c. c \<noteq> CHR ''\"'') r3)))) of
                        None \<Rightarrow> None
                      | Some (fullSnippet, rest) \<Rightarrow>
                          if list_ex is_line_terminator fullSnippet then None
                          else Some ((filePath, digits, fullSnippet), rest))))))"

lemma strip_prefix_length: "strip_prefix p s = Some r \<Longrightarrow> length s = length p + length r"
  by (induction p s rule: strip_prefix.induct) (auto split: if_splits)

lemma split_first_length:
  "split_first pat s = Some (b, a) \<Longrightarrow> length s = length b + length pat + length a"
  by (induction pat s arbitrary: b a rule: split_first.induct)
     (auto split: if_splits option.splits dest: strip_prefix_length)

lemma match_result_here_shorter:
  assumes "match_result_here s = Some (m, rest)"
  shows "length rest < length s"
proof -
  from assms obtain r1 r2 r3 sn where
    1: "strip_prefix ''<a'' s = Some r1" and
    2: "strip_prefix ''class=\"s\"'' (dropWhile is_space r1) = Some r2" and
    3: "strip_prefix ''href=\"/xref/'' (dropWhile is_space r2) = Some r3" and
    4: "split_first ''</a>'' (tl (dropWhile (\<lambda>c. c \<noteq> CHR ''>'')
          (tl (dropWhile (\<lambda>c. c \<noteq> CHR ''\"'') r3)))) = Some (sn, rest)"
    by (auto simp: match_result_here_def split: option.splits if_splits prod.splits)
  have "length rest \<le> length (tl (dropWhile (\<lambda>c. c \<noteq> CHR ''>'')
          (tl (dropWhile (\<lambda>c. c \<noteq> CHR ''\"'') r3))))"
    using split_first_length[OF 4] by simp
  also have "\<dots> \<le> length (dropWhile (\<lambda>c. c \<noteq> CHR ''\"'') r3)"
  proof -
    have "length (tl (dropWhile (\<lambda>c. c \<noteq> CHR ''>'') (tl (dropWhile (\<lambda>c. c \<noteq> CHR ''\"'') r3))))
        \<le> length (dropWhile (\<lambda>c. c \<noteq> CHR ''>'') (tl (dropWhile (\<lambda>c. c \<noteq> CHR ''\"'') r3)))"
      by simp
    also have "\<dots> \<le> length (tl (dropWhile (\<lambda>c. c \<noteq> CHR ''\"'') r3))"
      by (rule length_dropWhile_le)
    also have "\<dots> \<le> length (dropWhile (\<lambda>c. c \<noteq> CHR ''\"'') r3)" by simp
    finally show ?thesis .
  qed
  also have "\<dots> \<le> length r3" by (rule length_dropWhile_le)
  also have "\<dots> \<le> length (dropWhile is_space r2)" using strip_prefix_length[OF 3] by simp
  also have "\<dots> \<le> length r2" by (rule length_dropWhile_le)
  also have "\<dots> \<le> length (dropWhile is_space r1)" using strip_prefix_length[OF 2] by simp
  also have "\<dots> \<le> length r1" by (rule length_dropWhile_le)
  also have "\<dots> < length s" using strip_prefix_length[OF 1] by simp
  finally show ?thesis .
qed

lemma find_first_shorter:
  assumes "\<And>t x r. m t = Some (x, r) \<Longrightarrow> length r < length t"
  shows "find_first m s = Some (x, rest) \<Longrightarrow> length rest < length s"
proof (induction s)
  case Nil
  then show ?case using assms[of "[]" x rest] by simp
next
  case (Cons c cs)
  then show ?case using assms[of "c # cs"]
    by (auto split: option.splits)
qed

text \<open>
  The loop \<open>while ((match = resultPattern.exec(html)) !== null)\<close> of a global pattern:
  each search starts where the previous match ended.
\<close>

function exec_all_results :: "string \<Rightarrow> (string \<times> string \<times> string) list" where
  "exec_all_results s =
     (case find_first match_result_here s of
        None \<Rightarrow> []
      | Some (m, rest) \<Rightarrow> m # exec_all_results rest)"
  by pat_completeness auto
termination
  by (relation "measure length")
     (auto dest: find_first_shorter[OF match_result_here_shorter, rotated])

declare exec_all_results.simps [simp del]

section \<open>HTML pipeline: search and its normalizer\<close>

text \<open>\<open>n || 0\<close> on a number, and \<open>v || d\<close> on an optional string.\<close>

definition or_zero :: "number \<Rightarrow> number" where
  "or_zero n = (case n of NaN \<Rightarrow> Finite 0 | Finite i \<Rightarrow> Finite i)"

definition or_default :: "string option \<Rightarrow> string \<Rightarrow> string" where
  "or_default v d = (case v of None \<Rightarrow> d | Some x \<Rightarrow> if x \<noteq> [] then x else d)"

text \<open>
  \<open>parseSearchResults\<close>: the loop over the matches with its \<open>seen\<close> set and its
  \<open>results\<close> array. The diagnostic output on the console is not part of the result.
\<close>

definition result_key :: "string \<Rightarrow> number \<Rightarrow> string" where
  "result_key filePath ln = filePath @ '':'' @ show_number ln"

primrec parse_loop ::
  "(string \<times> string \<times> string) list \<Rightarrow> string option \<Rightarrow> string set \<Rightarrow> SearchResult list
     \<Rightarrow> SearchResult list" where
  "parse_loop [] proj seen acc = acc"
| "parse_loop (m # ms) proj seen acc =
     (let filePath = fst m;
          ln = or_zero (parseInt (fst (snd m)));
          fullSnippet = snd (snd m);
          key = result_key filePath ln
      in if key \<notin> seen
         then parse_loop ms proj (insert key seen)
                (acc @ [\<lparr>path = filePath, line = ln, snippet = fullSnippet,
                         project = or_default proj ''unknown''\<rparr>])
         else parse_loop ms proj seen acc)"

definition parseSearchResults :: "string \<Rightarrow> string option \<Rightarrow> SearchResult list" where
  "parseSearchResults html proj = parse_loop (exec_all_results html) proj {} []"

text \<open>\<open>OpenGrokClient.search\<close> of the html-scrape facade.\<close>

definition search_param_key :: "search_type \<Rightarrow> string" where
  "search_param_key searchType = (case searchType of
      search_defs \<Rightarrow> ''defs'' | search_refs \<Rightarrow> ''refs'' | search_path \<Rightarrow> ''path''
    | search_hist \<Rightarrow> ''hist'' | search_full \<Rightarrow> ''full'')"

definition html_search ::
  "string \<Rightarrow> string upstream \<Rightarrow> string \<Rightarrow> string \<Rightarrow> search_type \<Rightarrow> string option
     \<Rightarrow> int \<Rightarrow> request list \<Rightarrow> (error + SearchResult list) \<times> request list" where
  "html_search baseUrl up query proj searchType language maxResults log =
     (if proj = []
      then (Inl ''Project is required for OpenGrok search. Please specify a project.'', log)
      else
        (case client_get (html_client_config baseUrl) up
           \<lparr>url = ''/search'',
            params = [(''project'', PStr proj), (''xrd'', PStr []), (''nn'', PStr ''1''),
                      (search_param_key searchType, PStr query),
                      (''type'', PStr (or_default language []))]\<rparr> log of
          (r, log') \<Rightarrow>
            (rethrow ''OpenGrok search failed: ''
               (case r of
                  Inl m \<Rightarrow> Inl m
                | Inr response \<Rightarrow>
                    if status response = 401 \<or> status response = 403
                    then Inl (''Authentication failed ('' @ show_nat (status response)
                           @ ''). Your session cookies have expired. See console for instructions.'')
                    else if status response \<noteq> 200
                    then Inl (''OpenGrok search failed with status '' @ show_nat (status response))
                    else Inr (slice0 (parseSearchResults (data response) (Some proj)) maxResults)),
             log')))"

text \<open>\<open>OpenGrokClient.getCrossReferences\<close> of the html-scrape facade: every parsed
  search result becomes a record of type \<open>definition\<close>. Only 401 and 403 are inspected;
  any other status has its body parsed.\<close>

definition definition_of_result :: "string \<Rightarrow> SearchResult \<Rightarrow> CrossReference" where
  "definition_of_result symb r =
     \<lparr>ref_symbol = symb, ref_file = path r, ref_line = line r, ref_type = definition_type\<rparr>"

definition html_getCrossReferences ::
  "string \<Rightarrow> string upstream \<Rightarrow> string \<Rightarrow> string option \<Rightarrow> request list
     \<Rightarrow> (error + CrossReference list) \<times> request list" where
  "html_getCrossReferences baseUrl up symb proj log =
     (case client_get (html_client_config baseUrl) up
        \<lparr>url = ''/search'',
         params = (''q'', PStr (''definitions:'' @ symb))
                  # (if truthy proj then [(''project'', PStr (the proj))] else [])\<rparr> log of
        (r, log') \<Rightarrow>
          (rethrow ''Failed to get cross-references: ''
             (case r of
                Inl m \<Rightarrow> Inl m
              | Inr response \<Rightarrow>
                  if status response = 401 \<or> status response = 403
                  then Inl (''Authentication failed ('' @ show_nat (status response)
                         @ ''). Update OPENGROK_COOKIES.'')
                  else Inr (map (definition_of_result symb)
                              (parseSearchResults (data response) proj))),
           log'))"

section \<open>HTML pipeline: file content\<close>

record FileContent =
  fc_path :: string
  content :: string
  fc_project :: string

text \<open>
  \<open>/<pre[^>]*>([\s\S]*?)<\/pre>/\<close> at the head of a string: the opening tag ends at the
  next \<open>>\<close>, and the lazy group ends at the first \<open></pre>\<close> after it.
\<close>

definition match_pre_here :: "string \<Rightarrow> (string \<times> string) option" where
  "match_pre_here s =
     (case strip_prefix ''<pre'' s of
        None \<Rightarrow> None
      | Some r \<Rightarrow>
          if dropWhile (\<lambda>c. c \<noteq> CHR ''>'') r = [] then None
          else split_first ''</pre>'' (tl (dropWhile (\<lambda>c. c \<noteq> CHR ''>'') r)))"

text \<open>
  \<open>.replace(/<[^>]+>/g, '')\<close>: at a \<open><\<close> followed by at least one character other
  than \<open>>\<close> and then a \<open>>\<close>, the text up to that \<open>>\<close> is dropped and the scan goes on
  after it; any other character is kept.
\<close>

function remove_tags :: "string \<Rightarrow> string" where
  "remove_tags [] = []"
| "remove_tags (c # cs) =
     (if c = CHR ''<'' \<and> takeWhile (\<lambda>c. c \<noteq> CHR ''>'') cs \<noteq> []
         \<and> dropWhile (\<lambda>c. c \<noteq> CHR ''>'') cs \<noteq> []
      then remove_tags (tl (dropWhile (\<lambda>c. c \<noteq> CHR ''>'') cs))
      else c # remove_tags cs)"
  by pat_completeness auto
termination
proof (relation "measure length")
  fix c :: char and cs :: string
  have "length (tl (dropWhile (\<lambda>c. c \<noteq> CHR ''>'') cs)) \<le> length (dropWhile (\<lambda>c. c \<noteq> CHR ''>'') cs)"
    by simp
  also have "\<dots> \<le> length cs" by (rule length_dropWhile_le)
  finally show "(tl (dropWhile (\<lambda>c. c \<noteq> CHR ''>'') cs), c # cs) \<in> measure length"
    by simp
qed simp_all

text \<open>\<open>.replace(/pat/g, rep)\<close> for a literal, non-empty \<open>pat\<close>: occurrences are replaced
  from left to right, without overlap.\<close>

function replace_all :: "string \<Rightarrow> string \<Rightarrow> string \<Rightarrow> string" where
  "replace_all pat rep s =
     (if pat = [] \<or> s = [] then s
      else (case strip_prefix pat s of
              Some r \<Rightarrow> rep @ replace_all pat rep r
            | None \<Rightarrow> hd s # replace_all pat rep (tl s)))"
  by pat_completeness auto
termination
  by (relation "measure (\<lambda>(pat, rep, s). length s)")
     (auto dest: strip_prefix_length)

declare replace_all.simps [simp del]

definition extractFileContent :: "string \<Rightarrow> string" where
  "extractFileContent html =
     (case find_first match_pre_here html of
        Some (inner, rest) \<Rightarrow>
          trim (replace_all ''&amp;'' ''&''
                 (replace_all ''&gt;'' ''>''
                   (replace_all ''&lt;'' ''<'' (remove_tags inner))))
      | None \<Rightarrow> ''File content could not be extracted'')"

text \<open>
  \<open>OpenGrokClient.getFileContent\<close> of the html-scrape facade. The first request names
  the path alone; the second one, with the project segment, is sent only when the first
  response has status 404 and \<open>project\<close> is truthy. An error thrown by either request
  leaves the \<open>try\<close> at once.
\<close>

definition html_getFileContent ::
  "string \<Rightarrow> string upstream \<Rightarrow> string \<Rightarrow> string option \<Rightarrow> request list
     \<Rightarrow> (error + FileContent) \<times> request list" where
  "html_getFileContent baseUrl up fpath proj log =
     (case client_get (html_client_config baseUrl) up
             \<lparr>url = ''/xref/'' @ fpath, params = []\<rparr> log of
        (Inl m, log1) \<Rightarrow> (Inl (''Failed to get file content: '' @ m), log1)
      | (Inr response1, log1) \<Rightarrow>
          (case (if status response1 = 404 \<and> truthy proj
                 then client_get (html_client_config baseUrl) up
                        \<lparr>url = ''/xref/'' @ the proj @ ''/'' @ fpath, params = []\<rparr> log1
                 else (Inr response1, log1)) of
             (r, log2) \<Rightarrow>
               (rethrow ''Failed to get file content: ''
                  (case r of
                     Inl m \<Rightarrow> Inl m
                   | Inr response \<Rightarrow>
                       if status response = 401 \<or> status response = 403
                       then Inl (''Authentication failed ('' @ show_nat (status response)
                              @ ''). Update OPENGROK_COOKIES.'')
                       else if status response \<noteq> 200
                       then Inl (''Failed to get file: '' @ show_nat (status response)
                              @ ''. Tip: Omit the 'project' parameter and use the full path from search results (e.g., 'ProjectName/path/to/file').'')
                       else Inr \<lparr>fc_path = fpath,
                                 content = extractFileContent (data response),
                                 fc_project = or_default proj []\<rparr>),
                log2)))"

section \<open>HTML pipeline: project list\<close>

text \<open>
  \<open>/<option[^>]*value="([^"]*)"[^>]*>([^<]*)<\/option>/\<close> at the head of a string. The
  greedy \<open>[^>]*\<close> before \<open>value="\<close> stays inside the text up to the next \<open>>\<close>; the
  engine tries the occurrences of \<open>value="\<close> in that text from the last to the first and
  takes the first one after which the rest of the pattern matches. The rest has no
  choice: the value runs to the next quote, the tag to the next \<open>>\<close>, and the label to the
  next \<open><\<close>, which must start \<open></option>\<close>.
\<close>

definition match_option_tail :: "string \<Rightarrow> ((string \<times> string) \<times> string) option" where
  "match_option_tail t =
     (if dropWhile (\<lambda>c. c \<noteq> CHR ''\"'') t = [] then None
      else if dropWhile (\<lambda>c. c \<noteq> CHR ''>'') (tl (dropWhile (\<lambda>c. c \<noteq> CHR ''\"'') t)) = []
      then None
      else (case strip_prefix ''</option>''
                   (dropWhile (\<lambda>c. c \<noteq> CHR ''<'')
                      (tl (dropWhile (\<lambda>c. c \<noteq> CHR ''>'')
                         (tl (dropWhile (\<lambda>c. c \<noteq> CHR ''\"'') t))))) of
              None \<Rightarrow> None
            | Some rest \<Rightarrow>
                Some ((takeWhile (\<lambda>c. c \<noteq> CHR ''\"'') t,
                       takeWhile (\<lambda>c. c \<noteq> CHR ''<'')
                         (tl (dropWhile (\<lambda>c. c \<noteq> CHR ''>'')
                            (tl (dropWhile (\<lambda>c. c \<noteq> CHR ''\"'') t))))),
                      rest)))"

primrec first_some :: "('a \<Rightarrow> 'b option) \<Rightarrow> 'a list \<Rightarrow> 'b option" where
  "first_some f [] = None"
| "first_some f (x # xs) = (case f x of Some y \<Rightarrow> Some y | None \<Rightarrow> first_some f xs)"

definition match_option_here :: "string \<Rightarrow> ((string \<times> string) \<times> string) option" where
  "match_option_here s =
     (case strip_prefix ''<option'' s of
        None \<Rightarrow> None
      | Some r \<Rightarrow>
          first_some
            (\<lambda>k. case strip_prefix ''value=\"'' (drop k r) of
                    None \<Rightarrow> None
                  | Some t \<Rightarrow> match_option_tail t)
            (rev [0 ..< length (takeWhile (\<lambda>c. c \<noteq> CHR ''>'') r)]))"

lemma match_option_tail_shorter:
  assumes "match_option_tail t = Some (m, rest)"
  shows "length rest \<le> length t"
proof -
  let ?a = "dropWhile (\<lambda>c. c \<noteq> CHR ''\"'') t"
  let ?b = "dropWhile (\<lambda>c. c \<noteq> CHR ''>'') (tl ?a)"
  let ?c = "dropWhile (\<lambda>c. c \<noteq> CHR ''<'') (tl ?b)"
  from assms have "strip_prefix ''</option>'' ?c = Some rest"
    by (auto simp: match_option_tail_def split: if_splits option.splits)
  then have "length rest \<le> length ?c" by (auto dest: strip_prefix_length)
  also have "\<dots> \<le> length (tl ?b)" by (rule length_dropWhile_le)
  also have "\<dots> \<le> length ?b" by simp
  also have "\<dots> \<le> length (tl ?a)" by (rule length_dropWhile_le)
  also have "\<dots> \<le> length ?a" by simp
  also have "\<dots> \<le> length t" by (rule length_dropWhile_le)
  finally show ?thesis .
qed

lemma first_some_Some: "first_some f xs = Some y \<Longrightarrow> \<exists>x\<in>set xs. f x = Some y"
  by (induction xs) (auto split: option.splits)

lemma match_option_here_shorter:
  assumes "match_option_here s = Some (m, rest)"
  shows "length rest < length s"
proof -
  from assms obtain r k t where
    1: "strip_prefix ''<option'' s = Some r" and
    2: "strip_prefix ''value=\"'' (drop k r) = Some t" and
    3: "match_option_tail t = Some (m, rest)"
    by (auto simp: match_option_here_def split: option.splits dest!: first_some_Some)
  have "length rest \<le> length t" using 3 by (rule match_option_tail_shorter)
  also have "\<dots> \<le> length (drop k r)" using strip_prefix_length[OF 2] by simp
  also have "\<dots> \<le> length r" by simp
  also have "\<dots> < length s" using strip_prefix_length[OF 1] by simp
  finally show ?thesis .
qed

function exec_all_options :: "string \<Rightarrow> (string \<times> string) list" where
  "exec_all_options s =
     (case find_first match_option_here s of
        None \<Rightarrow> []
      | Some (m, rest) \<Rightarrow> m # exec_all_options rest)"
  by pat_completeness auto
termination
  by (relation "measure length")
     (auto dest: find_first_shorter[OF match_option_here_shorter, rotated])

declare exec_all_options.simps [simp del]

text \<open>\<open>parseProjects\<close>: \<open>match[1] || match[2]\<close> is the value, or the label when the
  value is empty; a name that is empty after trimming is skipped.\<close>

primrec projects_loop :: "(string \<times> string) list \<Rightarrow> string list \<Rightarrow> string list" where
  "projects_loop [] projects = projects"
| "projects_loop (m # ms) projects =
     (let projectName = (if fst m \<noteq> [] then fst m else snd m)
      in projects_loop ms
           (if projectName \<noteq> [] \<and> trim projectName \<noteq> []
            then projects @ [trim projectName] else projects))"

definition parseProjects :: "string \<Rightarrow> string list" where
  "parseProjects html = projects_loop (exec_all_options html) []"

definition html_listProjects ::
  "string \<Rightarrow> string upstream \<Rightarrow> request list \<Rightarrow> (error + string list) \<times> request list" where
  "html_listProjects baseUrl up log =
     (case client_get (html_client_config baseUrl) up \<lparr>url = ''/'', params = []\<rparr> log of
        (r, log') \<Rightarrow>
          (rethrow ''Failed to list projects: ''
             (case r of
                Inl m \<Rightarrow> Inl m
              | Inr response \<Rightarrow>
                  if status response = 401 \<or> status response = 403
                  then Inl (''Authentication failed ('' @ show_nat (status response)
                         @ ''). Update OPENGROK_COOKIES.'')
                  else if status response \<noteq> 200
                  then Inl (''OpenGrok API error: '' @ show_nat (status response))
                  else Inr (parseProjects (data response))),
           log'))"

section \<open>REST client: the GET operations behind the facade\<close>

text \<open>
  Twelve methods of \<open>OpenGrokApiClient\<close> share one body, word for word except for the
  request and the noun in the messages: a GET; status 401 or 403 is thrown as an
  authentication failure; any other status than 200 is thrown with the status; the body
  is returned; the catch prefixes whatever was thrown. \<open>api_get_checked\<close> is that body,
  with the message stem (\<open>Failed to get annotation\<close>, ...) as a parameter.
\<close>

definition api_get_checked ::
  "string \<Rightarrow> 'd upstream \<Rightarrow> string \<Rightarrow> request \<Rightarrow> request list
     \<Rightarrow> (error + 'd) \<times> request list" where
  "api_get_checked baseUrl up stem req log =
     (case client_get (api_client_config baseUrl) up req log of
        (r, log') \<Rightarrow>
          (rethrow (stem @ '': '')
             (case r of
                Inl m \<Rightarrow> Inl m
              | Inr response \<Rightarrow>
                  if status response = 401 \<or> status response = 403
                  then Inl (''Authentication failed ('' @ show_nat (status response)
                         @ ''). Update OPENGROK_COOKIES.'')
                  else if status response \<noteq> 200
                  then Inl (stem @ '': '' @ show_nat (status response))
                  else Inr (data response)),
           log'))"

definition api_getAnnotation ::
  "string \<Rightarrow> 'd upstream \<Rightarrow> string \<Rightarrow> request list \<Rightarrow> (error + 'd) \<times> request list" where
  "api_getAnnotation baseUrl up fpath log =
     api_get_checked baseUrl up ''Failed to get annotation''
       \<lparr>url = ''/annotation'', params = [(''path'', PStr fpath)]\<rparr> log"

definition api_getFileContent ::
  "string \<Rightarrow> 'd upstream \<Rightarrow> string \<Rightarrow> request list \<Rightarrow> (error + 'd) \<times> request list" where
  "api_getFileContent baseUrl up fpath log =
     api_get_checked baseUrl up ''Failed to get file content''
       \<lparr>url = ''/file/content'', params = [(''path'', PStr fpath)]\<rparr> log"

definition api_getFileGenre ::
  "string \<Rightarrow> 'd upstream \<Rightarrow> string \<Rightarrow> request list \<Rightarrow> (error + 'd) \<times> request list" where
  "api_getFileGenre baseUrl up fpath log =
     api_get_checked baseUrl up ''Failed to get file genre''
       \<lparr>url = ''/file/genre'', params = [(''path'', PStr fpath)]\<rparr> log"

definition api_getFileDefinitions ::
  "string \<Rightarrow> 'd upstream \<Rightarrow> string \<Rightarrow> request list \<Rightarrow> (error + 'd) \<times> request list" where
  "api_getFileDefinitions baseUrl up fpath log =
     api_get_checked baseUrl up ''Failed to get file definitions''
       \<lparr>url = ''/file/defs'', params = [(''path'', PStr fpath)]\<rparr> log"

definition api_getHistory ::
  "string \<Rightarrow> 'd upstream \<Rightarrow> string \<Rightarrow> bool option \<Rightarrow> int option \<Rightarrow> int option \<Rightarrow> request list
     \<Rightarrow> (error + 'd) \<times> request list" where
  "api_getHistory baseUrl up fpath withFiles start maxEntries log =
     api_get_checked baseUrl up ''Failed to get history''
       \<lparr>url = ''/history'',
        params = (''path'', PStr fpath)
          # (case withFiles of None \<Rightarrow> [] | Some b \<Rightarrow> [(''withFiles'', PBool b)])
          @ (case start of None \<Rightarrow> [] | Some n \<Rightarrow> [(''start'', PNum n)])
          @ (case maxEntries of None \<Rightarrow> [] | Some n \<Rightarrow> [(''max'', PNum n)])\<rparr> log"

definition api_getDirectoryListing ::
  "string \<Rightarrow> 'd upstream \<Rightarrow> string \<Rightarrow> request list \<Rightarrow> (error + 'd) \<times> request list" where
  "api_getDirectoryListing baseUrl up fpath log =
     api_get_checked baseUrl up ''Failed to get directory listing''
       \<lparr>url = ''/list'', params = [(''path'', PStr fpath)]\<rparr> log"

definition api_getLastIndexTime ::
  "string \<Rightarrow> 'd upstream \<Rightarrow> request list \<Rightarrow> (error + 'd) \<times> request list" where
  "api_getLastIndexTime baseUrl up log =
     api_get_checked baseUrl up ''Failed to get last index time''
       \<lparr>url = ''/system/indextime'', params = []\<rparr> log"

definition api_getProjects ::
  "string \<Rightarrow> 'd upstream \<Rightarrow> request list \<Rightarrow> (error + 'd) \<times> request list" where
  "api_getProjects baseUrl up log =
     api_get_checked baseUrl up ''Failed to get projects''
       \<lparr>url = ''/projects'', params = []\<rparr> log"

definition api_getProjectIndexedFiles ::
  "string \<Rightarrow> 'd upstream \<Rightarrow> string \<Rightarrow> request list \<Rightarrow> (error + 'd) \<times> request list" where
  "api_getProjectIndexedFiles baseUrl up projectName log =
     api_get_checked baseUrl up ''Failed to get project indexed files''
       \<lparr>url = ''/projects/'' @ projectName @ ''/files'', params = []\<rparr> log"

definition api_getProjectRepositories ::
  "string \<Rightarrow> 'd upstream \<Rightarrow> string \<Rightarrow> request list \<Rightarrow> (error + 'd) \<times> request list" where
  "api_getProjectRepositories baseUrl up projectName log =
     api_get_checked baseUrl up ''Failed to get project repositories''
       \<lparr>url = ''/projects/'' @ projectName @ ''/repositories'', params = []\<rparr> log"

definition api_getProjectRepositoryTypes ::
  "string \<Rightarrow> 'd upstream \<Rightarrow> string \<Rightarrow> request list \<Rightarrow> (error + 'd) \<times> request list" where
  "api_getProjectRepositoryTypes baseUrl up projectName log =
     api_get_checked baseUrl up ''Failed to get project repository types''
       \<lparr>url = ''/projects/'' @ projectName @ ''/repositories/type'', params = []\<rparr> log"

definition api_getIndexedProjects ::
  "string \<Rightarrow> 'd upstream \<Rightarrow> request list \<Rightarrow> (error + 'd) \<times> request list" where
  "api_getIndexedProjects baseUrl up log =
     api_get_checked baseUrl up ''Failed to get indexed projects''
       \<lparr>url = ''/projects/indexed'', params = []\<rparr> log"

text \<open>\<open>getVersion\<close> and \<open>getSuggestions\<close> inspect the status for 200 only.\<close>

definition api_getVersion ::
  "string \<Rightarrow> 'd upstream \<Rightarrow> request list \<Rightarrow> (error + 'd) \<times> request list" where
  "api_getVersion baseUrl up log =
     (case client_get (api_client_config baseUrl) up
             \<lparr>url = ''/system/version'', params = []\<rparr> log of
        (r, log') \<Rightarrow>
          (rethrow ''Failed to get version: ''
             (case r of
                Inl m \<Rightarrow> Inl m
              | Inr response \<Rightarrow>
                  if status response \<noteq> 200
                  then Inl (''Failed to get version: '' @ show_nat (status response))
                  else Inr (data response)),
           log'))"

record 's SuggesterResponse =
  suggester_time :: nat
  suggestions :: "'s list"
  suggester_identifier :: string
  queryText :: string
  partialResult :: bool

definition api_getSuggestions ::
  "string \<Rightarrow> 's SuggesterResponse upstream \<Rightarrow> string option \<Rightarrow> string option \<Rightarrow> int option
     \<Rightarrow> string option \<Rightarrow> string option \<Rightarrow> string option \<Rightarrow> string option \<Rightarrow> string option
     \<Rightarrow> string option \<Rightarrow> request list \<Rightarrow> (error + 's SuggesterResponse) \<times> request list" where
  "api_getSuggestions baseUrl up p_projects p_field p_caret p_full p_defs p_refs p_path p_hist
       p_type log =
     (case client_get (api_client_config baseUrl) up
        \<lparr>url = ''/suggest'',
         params = opt_param ''projects'' p_projects @ opt_param ''field'' p_field
           @ (case p_caret of None \<Rightarrow> [] | Some n \<Rightarrow> [(''caret'', PNum n)])
           @ opt_param ''full'' p_full @ opt_param ''defs'' p_defs
           @ opt_param ''refs'' p_refs @ opt_param ''path'' p_path
           @ opt_param ''hist'' p_hist @ opt_param ''type'' p_type\<rparr> log of
        (r, log') \<Rightarrow>
          (rethrow ''Get suggestions failed: ''
             (case r of
                Inl m \<Rightarrow> Inl m
              | Inr response \<Rightarrow>
                  if status response \<noteq> 200
                  then Inl (''Get suggestions failed with status '' @ show_nat (status response))
                  else Inr (data response)),
           log'))"

section \<open>REST facade: the delegating operations\<close>

text \<open>Each facade operation calls its client method inside a \<open>try\<close> whose catch
  prefixes the message once more. The facade removes one trailing slash from its base
  URL and builds its client from the result.\<close>

definition rest_getFileContent ::
  "string \<Rightarrow> string upstream \<Rightarrow> string \<Rightarrow> string option \<Rightarrow> request list
     \<Rightarrow> (error + FileContent) \<times> request list" where
  "rest_getFileContent baseUrl up fpath proj log =
     (case api_getFileContent (strip_trailing_slash baseUrl) up fpath log of
        (r, log') \<Rightarrow>
          (rethrow ''Failed to get file content: ''
             (case r of
                Inl m \<Rightarrow> Inl m
              | Inr text \<Rightarrow>
                  Inr \<lparr>fc_path = fpath, content = text, fc_project = or_default proj []\<rparr>),
           log'))"

definition rest_listProjects ::
  "string \<Rightarrow> 'd upstream \<Rightarrow> request list \<Rightarrow> (error + 'd) \<times> request list" where
  "rest_listProjects baseUrl up log =
     (case api_getProjects (strip_trailing_slash baseUrl) up log of
        (r, log') \<Rightarrow> (rethrow ''Failed to list projects: '' r, log'))"

definition rest_getAnnotation ::
  "string \<Rightarrow> 'd upstream \<Rightarrow> string \<Rightarrow> request list \<Rightarrow> (error + 'd) \<times> request list" where
  "rest_getAnnotation baseUrl up fpath log =
     (case api_getAnnotation (strip_trailing_slash baseUrl) up fpath log of
        (r, log') \<Rightarrow> (rethrow ''Failed to get annotation: '' r, log'))"

definition rest_getDirectoryListing ::
  "string \<Rightarrow> 'd upstream \<Rightarrow> string \<Rightarrow> request list \<Rightarrow> (error + 'd) \<times> request list" where
  "rest_getDirectoryListing baseUrl up fpath log =
     (case api_getDirectoryListing (strip_trailing_slash baseUrl) up fpath log of
        (r, log') \<Rightarrow> (rethrow ''Failed to get directory listing: '' r, log'))"

definition rest_getHistory ::
  "string \<Rightarrow> 'd upstream \<Rightarrow> string \<Rightarrow> bool option \<Rightarrow> int option \<Rightarrow> int option \<Rightarrow> request list
     \<Rightarrow> (error + 'd) \<times> request list" where
  "rest_getHistory baseUrl up fpath withFiles start maxEntries log =
     (case api_getHistory (strip_trailing_slash baseUrl) up fpath withFiles start maxEntries log of
        (r, log') \<Rightarrow> (rethrow ''Failed to get history: '' r, log'))"

definition rest_getFileDefinitions ::
  "string \<Rightarrow> 'd upstream \<Rightarrow> string \<Rightarrow> request list \<Rightarrow> (error + 'd) \<times> request list" where
  "rest_getFileDefinitions baseUrl up fpath log =
     (case api_getFileDefinitions (strip_trailing_slash baseUrl) up fpath log of
        (r, log') \<Rightarrow> (rethrow ''Failed to get file definitions: '' r, log'))"

definition rest_getFileGenre ::
  "string \<Rightarrow> 'd upstream \<Rightarrow> string \<Rightarrow> request list \<Rightarrow> (error + 'd) \<times> request list" where
  "rest_getFileGenre baseUrl up fpath log =
     (case api_getFileGenre (strip_trailing_slash baseUrl) up fpath log of
        (r, log') \<Rightarrow> (rethrow ''Failed to get file genre: '' r, log'))"

definition rest_getIndexedProjects ::
  "string \<Rightarrow> 'd upstream \<Rightarrow> request list \<Rightarrow> (error + 'd) \<times> request list" where
  "rest_getIndexedProjects baseUrl up log =
     (case api_getIndexedProjects (strip_trailing_slash baseUrl) up log of
        (r, log') \<Rightarrow> (rethrow ''Failed to get indexed projects: '' r, log'))"

definition rest_getProjectRepositories ::
  "string \<Rightarrow> 'd upstream \<Rightarrow> string \<Rightarrow> request list \<Rightarrow> (error + 'd) \<times> request list" where
  "rest_getProjectRepositories baseUrl up proj log =
     (case api_getProjectRepositories (strip_trailing_slash baseUrl) up proj log of
        (r, log') \<Rightarrow> (rethrow ''Failed to get project repositories: '' r, log'))"

definition rest_getProjectRepositoryTypes ::
  "string \<Rightarrow> 'd upstream \<Rightarrow> string \<Rightarrow> request list \<Rightarrow> (error + 'd) \<times> request list" where
  "rest_getProjectRepositoryTypes baseUrl up proj log =
     (case api_getProjectRepositoryTypes (strip_trailing_slash baseUrl) up proj log of
        (r, log') \<Rightarrow> (rethrow ''Failed to get project repository types: '' r, log'))"

definition rest_getProjectIndexedFiles ::
  "string \<Rightarrow> 'd upstream \<Rightarrow> string \<Rightarrow> request list \<Rightarrow> (error + 'd) \<times> request list" where
  "rest_getProjectIndexedFiles baseUrl up proj log =
     (case api_getProjectIndexedFiles (strip_trailing_slash baseUrl) up proj log of
        (r, log') \<Rightarrow> (rethrow ''Failed to get project indexed files: '' r, log'))"

definition rest_getSuggestions ::
  "string \<Rightarrow> 's SuggesterResponse upstream \<Rightarrow> string \<Rightarrow> string option \<Rightarrow> string
     \<Rightarrow> request list \<Rightarrow> (error + 's list) \<times> request list" where
  "rest_getSuggestions baseUrl up query proj field log =
     (case api_getSuggestions (strip_trailing_slash baseUrl) up (if truthy proj then proj else None) (Some field) None
             (Some query) (Some query) (Some query) (Some query) (Some query) None log of
        (r, log') \<Rightarrow>
          (rethrow ''Failed to get suggestions: ''
             (case r of Inl m \<Rightarrow> Inl m | Inr response \<Rightarrow> Inr (suggestions response)),
           log'))"

definition rest_getLastIndexTime ::
  "string \<Rightarrow> 'd upstream \<Rightarrow> request list \<Rightarrow> (error + 'd) \<times> request list" where
  "rest_getLastIndexTime baseUrl up log =
     (case api_getLastIndexTime (strip_trailing_slash baseUrl) up log of
        (r, log') \<Rightarrow> (rethrow ''Failed to get last index time: '' r, log'))"

definition rest_getVersion ::
  "string \<Rightarrow> 'd upstream \<Rightarrow> request list \<Rightarrow> (error + 'd) \<times> request list" where
  "rest_getVersion baseUrl up log =
     (case api_getVersion (strip_trailing_slash baseUrl) up log of
        (r, log') \<Rightarrow> (rethrow ''Failed to get version: '' r, log'))"

section \<open>Credential holder\<close>

record cookie =
  cookie_key :: string
  cookie_value :: string

text \<open>
  Modelled from the spec: the cookie jar. \<open>OpenGrokAuth\<close> keeps its cookies in a
  \<open>CookieJar\<close> of the cookie library, which is not part of the repository; the spec
  describes it as an ordered collection of (name, value) pairs for one origin, in which
  a segment that fails to parse is refused, and which hands its cookies back in its
  iteration order, not necessarily the insertion order. Here the jar is the list of its
  cookies in creation order; a segment parses as \<open>name=value\<close> at its first \<open>=\<close>, with
  both parts trimmed, and fails to parse without a \<open>=\<close> or with an empty name; a cookie set
  under a name the jar already holds replaces the held one in place. The iteration order
  is a parameter: \<open>iteration\<close> rearranges the held cookies.
\<close>

type_synonym cookie_jar = "cookie list"

definition parse_cookie :: "string \<Rightarrow> cookie option" where
  "parse_cookie s =
     (let t = trim s;
          name = takeWhile (\<lambda>c. c \<noteq> CHR ''='') t;
          after = dropWhile (\<lambda>c. c \<noteq> CHR ''='') t
      in if after = [] \<or> name = [] then None
         else Some \<lparr>cookie_key = trim name, cookie_value = trim (tl after)\<rparr>)"

fun put_cookie :: "cookie \<Rightarrow> cookie_jar \<Rightarrow> cookie_jar" where
  "put_cookie c [] = [c]"
| "put_cookie c (d # ds) = (if cookie_key d = cookie_key c then c # ds else d # put_cookie c ds)"

definition setCookieSync :: "string \<Rightarrow> cookie_jar \<Rightarrow> error + cookie_jar" where
  "setCookieSync s jar =
     (case parse_cookie s of
        None \<Rightarrow> Inl ''Cookie failed to parse''
      | Some c \<Rightarrow> Inr (put_cookie c jar))"

definition getCookiesSync :: "(cookie list \<Rightarrow> cookie list) \<Rightarrow> cookie_jar \<Rightarrow> cookie list" where
  "getCookiesSync iteration jar = iteration jar"

definition cookieString :: "cookie \<Rightarrow> string" where
  "cookieString c = cookie_key c @ ''='' @ cookie_value c"

text \<open>\<open>s.split(c)\<close> for a one-character separator, and \<open>xs.join(sep)\<close>.\<close>

fun split_on :: "char \<Rightarrow> string \<Rightarrow> string list" where
  "split_on sep [] = [[]]"
| "split_on sep (c # cs) =
     (if c = sep then [] # split_on sep cs
      else (case split_on sep cs of
              [] \<Rightarrow> [[c]]
            | piece # pieces \<Rightarrow> (c # piece) # pieces))"

fun join :: "string \<Rightarrow> string list \<Rightarrow> string" where
  "join sep [] = []"
| "join sep [x] = x"
| "join sep (x # y # ys) = x @ sep @ join sep (y # ys)"

text \<open>
  \<open>OpenGrokAuth.loadCookiesFromString\<close>: every segment between semicolons is trimmed
  and set; a segment the jar refuses is logged and skipped. The jar is passed in and
  returned.
\<close>

primrec load_segments :: "string list \<Rightarrow> cookie_jar \<Rightarrow> cookie_jar" where
  "load_segments [] jar = jar"
| "load_segments (segment # segments) jar =
     load_segments segments
       (case setCookieSync (trim segment) jar of Inl e \<Rightarrow> jar | Inr jar' \<Rightarrow> jar')"

definition loadCookiesFromString :: "string \<Rightarrow> cookie_jar \<Rightarrow> cookie_jar" where
  "loadCookiesFromString cookies jar = load_segments (split_on CHR '';'' cookies) jar"

text \<open>\<open>OpenGrokAuth.getCookieString\<close>.\<close>

definition getCookieString :: "(cookie list \<Rightarrow> cookie list) \<Rightarrow> cookie_jar \<Rightarrow> string" where
  "getCookieString iteration jar =
     join ''; '' (map cookieString (getCookiesSync iteration jar))"

section \<open>Reading the request log\<close>

text \<open>An operation that sent the requests \<open>sent\<close> was answered with status \<open>s\<close> when it
  sent at least one request and the upstream answered its last one with that status.\<close>

definition answered_with :: "'d upstream \<Rightarrow> request list \<Rightarrow> nat \<Rightarrow> bool" where
  "answered_with up sent s =
     (sent \<noteq> [] \<and> outcome_status (up (butlast sent) (last sent)) = Some s)"

section \<open>Properties: transport\<close>

lemma show_nat_401: "show_nat 401 = ''401''"
  by (simp add: show_nat.simps digit_char_def)

lemma show_nat_403: "show_nat 403 = ''403''"
  by (simp add: show_nat.simps digit_char_def)

lemma show_nat_503: "show_nat 503 = ''503''"
  by (simp add: show_nat.simps digit_char_def)

text \<open>
  C4, as stated, fails: the rest-api client's policy rejects status 503, so the HTTP
  library throws there and the failure does not come from a status inspection.
\<close>

theorem validateStatus_api_rejects_503:
  "\<not> validateStatus (api_client_config ''http://opengrok.example'') 503
   \<and> settle (api_client_config ''http://opengrok.example'') (Response 503 ''oops'')
       = Inl ''Request failed with status code 503''"
  by (simp add: api_client_config_def settle_def show_nat_503)

text \<open>
  C4, amended: the html-scrape client and the credential holder's client accept every
  status as successful transport; the rest-api client accepts exactly the statuses from
  200 to 499, and for every other status the HTTP library throws.
\<close>

theorem validateStatus_policy:
  "validateStatus (html_client_config baseUrl) s
   \<and> validateStatus auth_client_config s
   \<and> settle (html_client_config baseUrl) (Response s d) = Inr \<lparr>status = s, data = d\<rparr>
   \<and> validateStatus (api_client_config baseUrl) s = (200 \<le> s \<and> s < 500)
   \<and> settle (api_client_config baseUrl) (Response s d)
       = (if 200 \<le> s \<and> s < 500 then Inr \<lparr>status = s, data = d\<rparr>
          else Inl (''Request failed with status code '' @ show_nat s))"
  by (simp add: html_client_config_def auth_client_config_def api_client_config_def settle_def)

text \<open>
  C8: \<open>ping\<close> always returns a boolean, never an error; the boolean is true exactly when
  the call produced a response with status 200, and false for a transport failure and
  for every other status. It sends one request.
\<close>

theorem ping_never_raises:
  "rest_ping baseUrl up log =
     (Inr (outcome_status (up log \<lparr>url = ''/system/ping'', params = []\<rparr>) = Some 200),
      log @ [\<lparr>url = ''/system/ping'', params = []\<rparr>])"
  by (cases "up log \<lparr>url = ''/system/ping'', params = []\<rparr>")
     (auto simp: rest_ping_def api_ping_def client_get_def settle_def api_client_config_def
        outcome_status_def)

section \<open>Properties: REST normalizer\<close>

lemma transform_hits_eq:
  "transform_hits fp p hs acc = acc @ map (transform_hit fp p) (filter hit_accepted hs)"
  by (induction hs arbitrary: acc) simp_all

lemma transform_entries_eq:
  "transform_entries p es acc =
     acc @ concat (map (\<lambda>e. map (transform_hit (fst e) p) (filter hit_accepted (snd e))) es)"
  by (induction es arbitrary: acc) (simp_all add: transform_hits_eq)

lemma transformSearchResults_eq:
  "transformSearchResults r p =
     concat (map (\<lambda>e. map (transform_hit (fst e) p) (filter hit_accepted (snd e))) (results r))"
  by (simp add: transformSearchResults_def transform_entries_eq)

lemma length_transformSearchResults:
  "length (transformSearchResults r p) = (\<Sum>e\<leftarrow>results r. length (filter hit_accepted (snd e)))"
  by (simp add: transformSearchResults_eq length_concat comp_def)

lemma path_transform_hit [simp]: "path (transform_hit k p h) = k"
  by (simp add: transform_hit_def)

lemma filter_path_other:
  "k \<notin> fst ` set es \<Longrightarrow>
   filter (\<lambda>h. path h = k)
     (concat (map (\<lambda>e. map (transform_hit (fst e) p) (filter hit_accepted (snd e))) es)) = []"
  by (induction es) (auto simp: filter_empty_conv)

lemma filter_path_concat:
  "distinct (map fst es) \<Longrightarrow> e \<in> set es \<Longrightarrow>
   filter (\<lambda>h. path h = fst e)
     (concat (map (\<lambda>e. map (transform_hit (fst e) p) (filter hit_accepted (snd e))) es))
   = map (transform_hit (fst e) p) (filter hit_accepted (snd e))"
proof (induction es)
  case Nil
  then show ?case by simp
next
  case (Cons a es)
  have na: "fst a \<notin> fst ` set es" using Cons.prems(1) by simp
  show ?case
  proof (cases "e = a")
    case True
    then show ?thesis using filter_path_other[OF na, of p] by (simp add: filter_map comp_def)
  next
    case False
    then have "e \<in> set es" using Cons.prems(2) by simp
    moreover have "fst a \<noteq> fst e" using na \<open>e \<in> set es\<close> by force
    ultimately show ?thesis using Cons by (simp add: filter_map comp_def)
  qed
qed

lemma all_accepted_sum:
  "\<forall>e\<in>set es. \<forall>h\<in>set (snd e). hit_accepted h \<Longrightarrow>
   (\<Sum>e\<leftarrow>es. length (filter hit_accepted (snd e))) = (\<Sum>e\<leftarrow>es. length (snd e))"
  by (induction es) simp_all

lemma parseInt_abc: "parseInt ''abc'' = NaN"
  by (simp add: parseInt_def is_space_def is_digit_def)

lemma parseInt_7: "parseInt ''7'' = Finite 7"
  by (simp add: parseInt_def is_space_def is_digit_def digits_value_def digit_value_def)

lemma parseInt_9: "parseInt ''9'' = Finite 9"
  by (simp add: parseInt_def is_space_def is_digit_def digits_value_def digit_value_def)

text \<open>
  C2 at the rest-api normalizer: two hit records of one file with the same line number
  both reach the result list, so two records share their (path, line) pair. The html
  normalizer keeps a \<open>seen\<close> set for this; the rest-api one computes the key and drops it.
\<close>

theorem rest_normalizer_keeps_duplicates:
  "transformSearchResults
     \<lparr>time = 1, resultCount = 2, startDocument = 0, endDocument = 1,
      results = [(''src/a.c'',
        [\<lparr>hit_line = ''int x;'', lineNumber = ''7'', tag = []\<rparr>,
         \<lparr>hit_line = ''x = 1;'', lineNumber = ''7'', tag = []\<rparr>])]\<rparr> ''proj''
   = [\<lparr>path = ''src/a.c'', line = Finite 7, snippet = ''int x;'', project = ''proj''\<rparr>,
      \<lparr>path = ''src/a.c'', line = Finite 7, snippet = ''x = 1;'', project = ''proj''\<rparr>]
   \<and> \<not> distinct (map (\<lambda>r. (path r, line r))
        (transformSearchResults
           \<lparr>time = 1, resultCount = 2, startDocument = 0, endDocument = 1,
            results = [(''src/a.c'',
              [\<lparr>hit_line = ''int x;'', lineNumber = ''7'', tag = []\<rparr>,
               \<lparr>hit_line = ''x = 1;'', lineNumber = ''7'', tag = []\<rparr>])]\<rparr> ''proj''))"
  by (simp add: transformSearchResults_def hit_accepted_def transform_hit_def parseInt_7
        or_unknown_def)

text \<open>
  C3, as stated, fails: a hit record whose \<open>line\<close> text is empty is skipped by the guard,
  so one file with one hit yields no record.
\<close>

theorem flatten_drops_empty_hit:
  "length (transformSearchResults
     \<lparr>time = 1, resultCount = 1, startDocument = 0, endDocument = 0,
      results = [(''src/a.c'', [\<lparr>hit_line = [], lineNumber = ''7'', tag = []\<rparr>])]\<rparr> ''proj'')
   \<noteq> (\<Sum>e\<leftarrow>[(''src/a.c'', [\<lparr>hit_line = [], lineNumber = ''7'', tag = []\<rparr>])]. length (snd e))"
  by (simp add: transformSearchResults_def hit_accepted_def)

text \<open>
  C3, amended: flattening returns, in the order of the mapping, one record for each hit
  whose \<open>lineNumber\<close> and \<open>line\<close> fields are both non-empty, so exactly the sum of the
  \<open>H_i\<close> when every hit has both; and, the file paths being the distinct keys of one
  object, the returned records with a given path are, in order, the records of that
  file's accepted hits (path, parsed line number, line text).
\<close>

theorem flatten_count_and_grouping:
  "transformSearchResults r p =
     concat (map (\<lambda>e. map (transform_hit (fst e) p) (filter hit_accepted (snd e))) (results r))
   \<and> length (transformSearchResults r p)
       = (\<Sum>e\<leftarrow>results r. length (filter hit_accepted (snd e)))
   \<and> ((\<forall>e\<in>set (results r). \<forall>h\<in>set (snd e). hit_accepted h) \<longrightarrow>
        length (transformSearchResults r p) = (\<Sum>e\<leftarrow>results r. length (snd e)))
   \<and> (distinct (map fst (results r)) \<longrightarrow>
        (\<forall>e\<in>set (results r).
           filter (\<lambda>h. path h = fst e) (transformSearchResults r p)
             = map (transform_hit (fst e) p) (filter hit_accepted (snd e))))"
proof (intro conjI impI ballI)
  show "transformSearchResults r p =
     concat (map (\<lambda>e. map (transform_hit (fst e) p) (filter hit_accepted (snd e))) (results r))"
    by (rule transformSearchResults_eq)
  show "length (transformSearchResults r p)
       = (\<Sum>e\<leftarrow>results r. length (filter hit_accepted (snd e)))"
    by (rule length_transformSearchResults)
next
  assume "\<forall>e\<in>set (results r). \<forall>h\<in>set (snd e). hit_accepted h"
  then show "length (transformSearchResults r p) = (\<Sum>e\<leftarrow>results r. length (snd e))"
    using all_accepted_sum[of "results r"] by (simp add: length_transformSearchResults)
next
  fix e
  assume "distinct (map fst (results r))" and "e \<in> set (results r)"
  then show "filter (\<lambda>h. path h = fst e) (transformSearchResults r p)
             = map (transform_hit (fst e) p) (filter hit_accepted (snd e))"
    using filter_path_concat[of "results r" e p] by (simp add: transformSearchResults_eq)
qed

theorem flatten_count_and_grouping_witness:
  "length (transformSearchResults
     \<lparr>time = 1, resultCount = 3, startDocument = 0, endDocument = 2,
      results = [(''src/a.c'',
        [\<lparr>hit_line = ''int x;'', lineNumber = ''7'', tag = []\<rparr>,
         \<lparr>hit_line = ''x = 1;'', lineNumber = ''9'', tag = []\<rparr>]),
       (''src/b.c'', [\<lparr>hit_line = ''int y;'', lineNumber = ''7'', tag = []\<rparr>])]\<rparr> ''proj'') = 3
   \<and> filter (\<lambda>h. path h = ''src/a.c'') (transformSearchResults
     \<lparr>time = 1, resultCount = 3, startDocument = 0, endDocument = 2,
      results = [(''src/a.c'',
        [\<lparr>hit_line = ''int x;'', lineNumber = ''7'', tag = []\<rparr>,
         \<lparr>hit_line = ''x = 1;'', lineNumber = ''9'', tag = []\<rparr>]),
       (''src/b.c'', [\<lparr>hit_line = ''int y;'', lineNumber = ''7'', tag = []\<rparr>])]\<rparr> ''proj'')
     = [\<lparr>path = ''src/a.c'', line = Finite 7, snippet = ''int x;'', project = ''proj''\<rparr>,
        \<lparr>path = ''src/a.c'', line = Finite 9, snippet = ''x = 1;'', project = ''proj''\<rparr>]"
  using flatten_count_and_grouping [of
     "\<lparr>time = 1, resultCount = 3, startDocument = 0, endDocument = 2,
      results = [(''src/a.c'',
        [\<lparr>hit_line = ''int x;'', lineNumber = ''7'', tag = []\<rparr>,
         \<lparr>hit_line = ''x = 1;'', lineNumber = ''9'', tag = []\<rparr>]),
       (''src/b.c'', [\<lparr>hit_line = ''int y;'', lineNumber = ''7'', tag = []\<rparr>])]\<rparr>" "''proj''"]
  by (simp add: hit_accepted_def transform_hit_def parseInt_7 parseInt_9 or_unknown_def)

text \<open>
  C5 at a non-numeric line number: the hit \<open>{line: "int x;", lineNumber: "abc"}\<close> passes
  the guard, \<open>parseInt\<close> yields \<open>NaN\<close>, and the record carries \<open>NaN\<close>, not 0. The
  \<open>: 0\<close> branch of the source is reached only for an empty \<open>lineNumber\<close>, which the guard
  has already excluded. The snippet is the line text, unchanged.
\<close>

theorem rest_line_number_nan:
  "transformSearchResults
     \<lparr>time = 1, resultCount = 1, startDocument = 0, endDocument = 0,
      results = [(''src/a.c'', [\<lparr>hit_line = ''int x;'', lineNumber = ''abc'', tag = []\<rparr>])]\<rparr>
     ''proj''
   = [\<lparr>path = ''src/a.c'', line = NaN, snippet = ''int x;'', project = ''proj''\<rparr>]"
  by (simp add: transformSearchResults_def hit_accepted_def transform_hit_def parseInt_abc
        or_unknown_def)

section \<open>Properties: file content\<close>

lemma strip_prefix_iff: "strip_prefix p s = Some r \<longleftrightarrow> s = p @ r"
  by (induction p s rule: strip_prefix.induct) auto

lemma strip_prefix_None_iff: "strip_prefix p s = None \<longleftrightarrow> \<not> prefix p s"
proof -
  have "strip_prefix p s \<noteq> None \<longleftrightarrow> prefix p s"
    by (induction p s rule: strip_prefix.induct) auto
  then show ?thesis by blast
qed

lemma starts_with_prefix: "starts_with s p \<longleftrightarrow> prefix p s"
  by (induction s p rule: starts_with.induct) auto

lemma str_includes_sublist: "str_includes s p \<longleftrightarrow> sublist p s"
proof (induction s)
  case Nil
  then show ?case by simp
next
  case (Cons c cs)
  then show ?case by (cases p) (auto simp: starts_with_prefix sublist_Cons_right)
qed

text \<open>An occurrence of a literal that starts inside \<open>x\<close> lies inside \<open>x\<close> followed by
  all but the last character of the literal.\<close>

lemma prefix_in_front:
  assumes "prefix pat (c # x @ pat @ y)" and "pat \<noteq> []"
  shows "sublist pat ((c # x) @ butlast pat)"
proof -
  have "prefix ((c # x) @ butlast pat) (c # x @ pat @ y)"
  proof -
    have "pat = butlast pat @ [last pat]" using assms(2) by simp
    then have "c # x @ pat @ y = ((c # x) @ butlast pat) @ (last pat # y)"
      by (metis append.assoc append_Cons append_Nil)
    then show ?thesis by (metis prefixI)
  qed
  moreover have "length pat \<le> length ((c # x) @ butlast pat)" by simp
  ultimately have "prefix pat ((c # x) @ butlast pat)"
    using assms(1) prefix_length_prefix by blast
  then show ?thesis by (rule prefix_imp_sublist)
qed

lemma split_first_at:
  assumes "pat \<noteq> []" and "\<not> str_includes (x @ butlast pat) pat"
  shows "split_first pat (x @ pat @ y) = Some (x, y)"
  using assms(2)
proof (induction x)
  case Nil
  have "strip_prefix pat (pat @ y) = Some y" by (simp add: strip_prefix_iff)
  then show ?case using assms(1) by (cases "pat @ y") auto
next
  case (Cons c x)
  have no: "\<not> sublist pat ((c # x) @ butlast pat)"
    using Cons.prems by (simp add: str_includes_sublist)
  then have "\<not> prefix pat (c # x @ pat @ y)"
    using prefix_in_front[OF _ assms(1)] by blast
  then have 1: "strip_prefix pat (c # x @ pat @ y) = None"
    by (simp add: strip_prefix_None_iff)
  have "\<not> sublist pat (x @ butlast pat)"
    using no by (auto simp: sublist_Cons_right)
  then have "split_first pat (x @ pat @ y) = Some (x, y)"
    using Cons.IH by (simp add: str_includes_sublist)
  then show ?case using 1 by simp
qed

lemma find_first_skip:
  assumes "pat \<noteq> []" and "\<not> str_includes (x @ butlast pat) pat"
    and "\<And>t. \<not> prefix pat t \<Longrightarrow> m t = None"
  shows "find_first m (x @ pat @ y) = find_first m (pat @ y)"
  using assms(2)
proof (induction x)
  case Nil
  then show ?case by simp
next
  case (Cons c x)
  have no: "\<not> sublist pat ((c # x) @ butlast pat)"
    using Cons.prems by (simp add: str_includes_sublist)
  then have "\<not> prefix pat (c # x @ pat @ y)"
    using prefix_in_front[OF _ assms(1)] by blast
  then have 1: "m (c # x @ pat @ y) = None" by (rule assms(3))
  have "\<not> sublist pat (x @ butlast pat)"
    using no by (auto simp: sublist_Cons_right)
  then have "find_first m (x @ pat @ y) = find_first m (pat @ y)"
    using Cons.IH by (simp add: str_includes_sublist)
  then show ?case using 1 by simp
qed

lemma find_first_hit: "m s = Some r \<Longrightarrow> find_first m s = Some r"
  by (cases s) simp_all

lemma dropWhile_until:
  "c \<notin> set xs \<Longrightarrow> dropWhile (\<lambda>x. x \<noteq> c) (xs @ c # ys) = c # ys"
  by (induction xs) auto

lemma takeWhile_until:
  "c \<notin> set xs \<Longrightarrow> takeWhile (\<lambda>x. x \<noteq> c) (xs @ c # ys) = xs"
  by (induction xs) auto

lemma match_pre_here_block:
  assumes "CHR ''>'' \<notin> set attrs" and "\<not> str_includes (inner @ ''</pre'') ''</pre>''"
  shows "match_pre_here (''<pre'' @ attrs @ ''>'' @ inner @ ''</pre>'' @ after) = Some (inner, after)"
proof -
  have "split_first ''</pre>'' (inner @ ''</pre>'' @ after) = Some (inner, after)"
    using assms(2) by (intro split_first_at) simp_all
  then show ?thesis
    using assms(1) by (simp add: match_pre_here_def dropWhile_until)
qed

lemma match_pre_here_None:
  assumes "\<not> prefix ''<pre'' t"
  shows "match_pre_here t = None"
proof -
  have h: "strip_prefix ''<pre'' t = None"
    using assms strip_prefix_None_iff by blast
  show ?thesis unfolding match_pre_here_def h by simp
qed

text \<open>
  C7, as stated, fails: the result is also trimmed. For the block \<open><pre> int x; </pre>\<close>
  the inner text with tags removed and entities reversed is \<open>" int x; "\<close>, and the
  function returns \<open>"int x;"\<close>.
\<close>

theorem extractFileContent_trims:
  "extractFileContent ''<pre> int x; </pre>'' = ''int x;''
   \<and> replace_all ''&amp;'' ''&'' (replace_all ''&gt;'' ''>''
         (replace_all ''&lt;'' ''<'' (remove_tags '' int x; ''))) = '' int x; ''"
  by (simp add: extractFileContent_def match_pre_here_def replace_all.simps trim_def
        is_space_def)

lemma unescape_hello:
  "trim (replace_all ''&amp;'' ''&'' (replace_all ''&gt;'' ''>''
     (replace_all ''&lt;'' ''<'' (remove_tags ''Hello &amp; &lt;world&gt;'')))) = ''Hello & <world>''"
  by code_simp

text \<open>
  C7, amended: when the page is \<open>before <pre attrs> inner </pre> after\<close>, where no
  \<open><pre\<close> starts inside \<open>before\<close>, \<open>attrs\<close> holds no \<open>>\<close> and no \<open></pre>\<close> starts inside
  \<open>inner\<close>, file-content extraction returns \<open>inner\<close> with every \<open><...>\<close> tag removed,
  then \<open>&lt;\<close>, \<open>&gt;\<close> and \<open>&amp;\<close> reversed in that order, then leading and trailing
  white space trimmed.
\<close>

theorem extractFileContent_block:
  assumes "\<not> str_includes (before @ ''<pr'') ''<pre''"
    and "CHR ''>'' \<notin> set attrs"
    and "\<not> str_includes (inner @ ''</pre'') ''</pre>''"
  shows "extractFileContent (before @ ''<pre'' @ attrs @ ''>'' @ inner @ ''</pre>'' @ after)
     = trim (replace_all ''&amp;'' ''&'' (replace_all ''&gt;'' ''>''
         (replace_all ''&lt;'' ''<'' (remove_tags inner))))"
proof -
  have "find_first match_pre_here (before @ ''<pre'' @ attrs @ ''>'' @ inner @ ''</pre>'' @ after)
      = find_first match_pre_here (''<pre'' @ attrs @ ''>'' @ inner @ ''</pre>'' @ after)"
    using assms(1) match_pre_here_None by (intro find_first_skip) simp_all
  also have "\<dots> = Some (inner, after)"
    using match_pre_here_block[OF assms(2,3)] by (rule find_first_hit)
  finally show ?thesis by (simp add: extractFileContent_def)
qed

theorem extractFileContent_block_witness:
  "extractFileContent ''<html><body><pre>Hello &amp; &lt;world&gt;</pre></body></html>''
     = ''Hello & <world>''"
proof -
  have 1: "\<not> str_includes (''<html><body>'' @ ''<pr'') ''<pre''" by simp
  have 2: "CHR ''>'' \<notin> set []" by simp
  have 3: "\<not> str_includes (''Hello &amp; &lt;world&gt;'' @ ''</pre'') ''</pre>''" by simp
  show ?thesis
    using extractFileContent_block[OF 1 2 3, of "''</body></html>''"] unescape_hello by simp
qed

text \<open>
  C6: \<open>getFileContent\<close> of the html-scrape facade sends one request or two. The first
  names the path without the project segment. The second, with the project segment
  prepended, is sent exactly when the first response has status 404 and a project name
  was supplied (a non-empty string: an absent or empty name is falsy); nothing is sent
  after it. When the upstream answers 404 to the first and 200 to the second, the
  operation succeeds with the content extracted from the second body, after exactly
  these two requests in this order.
\<close>

theorem getFileContent_calls:
  "snd (html_getFileContent baseUrl up fpath proj log) =
     (if outcome_status (up log \<lparr>url = ''/xref/'' @ fpath, params = []\<rparr>) = Some 404 \<and> truthy proj
      then log @ [\<lparr>url = ''/xref/'' @ fpath, params = []\<rparr>,
                  \<lparr>url = ''/xref/'' @ the proj @ ''/'' @ fpath, params = []\<rparr>]
      else log @ [\<lparr>url = ''/xref/'' @ fpath, params = []\<rparr>])
   \<and> (truthy proj
        \<and> up log \<lparr>url = ''/xref/'' @ fpath, params = []\<rparr> = Response 404 body1
        \<and> up (log @ [\<lparr>url = ''/xref/'' @ fpath, params = []\<rparr>])
              \<lparr>url = ''/xref/'' @ the proj @ ''/'' @ fpath, params = []\<rparr> = Response 200 body2
      \<longrightarrow> html_getFileContent baseUrl up fpath proj log =
            (Inr \<lparr>fc_path = fpath, content = extractFileContent body2, fc_project = the proj\<rparr>,
             log @ [\<lparr>url = ''/xref/'' @ fpath, params = []\<rparr>,
                    \<lparr>url = ''/xref/'' @ the proj @ ''/'' @ fpath, params = []\<rparr>]))"
proof (intro conjI impI)
  show "snd (html_getFileContent baseUrl up fpath proj log) =
     (if outcome_status (up log \<lparr>url = ''/xref/'' @ fpath, params = []\<rparr>) = Some 404 \<and> truthy proj
      then log @ [\<lparr>url = ''/xref/'' @ fpath, params = []\<rparr>,
                  \<lparr>url = ''/xref/'' @ the proj @ ''/'' @ fpath, params = []\<rparr>]
      else log @ [\<lparr>url = ''/xref/'' @ fpath, params = []\<rparr>])"
    by (cases "up log \<lparr>url = ''/xref/'' @ fpath, params = []\<rparr>")
       (simp_all add: html_getFileContent_def client_get_def settle_def html_client_config_def
          outcome_status_def)
next
  assume "truthy proj
        \<and> up log \<lparr>url = ''/xref/'' @ fpath, params = []\<rparr> = Response 404 body1
        \<and> up (log @ [\<lparr>url = ''/xref/'' @ fpath, params = []\<rparr>])
              \<lparr>url = ''/xref/'' @ the proj @ ''/'' @ fpath, params = []\<rparr> = Response 200 body2"
  then show "html_getFileContent baseUrl up fpath proj log =
            (Inr \<lparr>fc_path = fpath, content = extractFileContent body2, fc_project = the proj\<rparr>,
             log @ [\<lparr>url = ''/xref/'' @ fpath, params = []\<rparr>,
                    \<lparr>url = ''/xref/'' @ the proj @ ''/'' @ fpath, params = []\<rparr>])"
    by (auto simp: html_getFileContent_def client_get_def settle_def html_client_config_def
          rethrow_def truthy_def or_default_def split: option.splits)
qed

theorem getFileContent_calls_witness:
  "html_getFileContent ''http://opengrok.example/''
      (\<lambda>log req. if url req = ''/xref/src/a.c'' then Response 404 ''not here''
                  else if url req = ''/xref/proj/src/a.c'' then Response 200 ''<pre>int x;</pre>''
                  else Response 500 [])
      ''src/a.c'' (Some ''proj'') []
   = (Inr \<lparr>fc_path = ''src/a.c'', content = ''int x;'', fc_project = ''proj''\<rparr>,
      [\<lparr>url = ''/xref/src/a.c'', params = []\<rparr>, \<lparr>url = ''/xref/proj/src/a.c'', params = []\<rparr>])"
proof -
  have c: "extractFileContent ''<pre>int x;</pre>'' = ''int x;''" by code_simp
  show ?thesis
    using getFileContent_calls [of "''http://opengrok.example/''"
      "\<lambda>log req. if url req = ''/xref/src/a.c'' then Response 404 ''not here''
                  else if url req = ''/xref/proj/src/a.c'' then Response 200 ''<pre>int x;</pre>''
                  else Response 500 []"
      "''src/a.c''" "Some ''proj''" "[]" "''not here''" "''<pre>int x;</pre>''"]
    by (simp add: truthy_def c)
qed

section \<open>Properties: cross-references\<close>

lemma reference_hits_eq:
  "reference_hits symb fp hs acc =
     acc @ map (reference_of_hit symb fp) (filter (\<lambda>h. lineNumber h \<noteq> []) hs)"
  by (induction hs arbitrary: acc) simp_all

lemma reference_entries_eq:
  "reference_entries symb es acc =
     acc @ concat (map (\<lambda>e. map (reference_of_hit symb (fst e))
                             (filter (\<lambda>h. lineNumber h \<noteq> []) (snd e))) es)"
  by (induction es arbitrary: acc) (simp_all add: reference_hits_eq)

lemma ref_type_reference_of_hit: "ref_type (reference_of_hit symb fp h) = reference_type"
  by (simp add: reference_of_hit_def)

lemma reference_entries_types:
  "r \<in> set (reference_entries symb es []) \<Longrightarrow> ref_type r = reference_type"
  by (auto simp: reference_entries_eq ref_type_reference_of_hit)

lemma rethrow_Inr: "rethrow pre r = Inr v \<longleftrightarrow> r = Inr v"
  by (cases r) (simp_all add: rethrow_def)

lemma html_getCrossReferences_Inr:
  assumes "fst (html_getCrossReferences baseUrl up symb proj log) = Inr refs"
  shows "\<exists>rs. refs = map (definition_of_result symb) rs"
proof (cases "settle (html_client_config baseUrl) (up log \<lparr>url = ''/search'',
         params = (''q'', PStr (''definitions:'' @ symb))
                  # (if truthy proj then [(''project'', PStr (the proj))] else [])\<rparr>)")
  case (Inl m)
  then show ?thesis
    using assms by (simp add: html_getCrossReferences_def client_get_def rethrow_Inr)
next
  case (Inr response)
  then show ?thesis
    using assms
    by (cases "status response = 401 \<or> status response = 403")
       (auto simp: html_getCrossReferences_def client_get_def rethrow_Inr)
qed

lemma rest_getCrossReferences_Inr:
  assumes "fst (rest_getCrossReferences baseUrl up symb proj log) = Inr refs"
  shows "\<exists>es. refs = reference_entries symb es []"
proof (cases "api_search (strip_trailing_slash baseUrl) up None None (Some symb) None None None
                proj None None None log")
  case (Pair r log')
  then show ?thesis
    using assms
    by (cases r) (auto simp: rest_getCrossReferences_def rethrow_Inr)
qed

text \<open>
  C10: every record that \<open>getCrossReferences\<close> returns has one fixed type, chosen by
  the backend alone: \<open>definition\<close> from the html-scrape facade, \<open>reference\<close> from the
  rest-api facade, whatever the symbol and whatever the upstream answered. No result
  list mixes the two, and the type says nothing about the hit.
\<close>

theorem cross_reference_type_fixed_by_backend:
  "(fst (html_getCrossReferences baseUrl up symb proj log) = Inr refs \<longrightarrow>
      (\<forall>r\<in>set refs. ref_type r = definition_type))
   \<and> (fst (rest_getCrossReferences baseUrl up' symb proj log) = Inr refs' \<longrightarrow>
      (\<forall>r\<in>set refs'. ref_type r = reference_type))"
proof (intro conjI impI)
  assume "fst (html_getCrossReferences baseUrl up symb proj log) = Inr refs"
  then obtain rs where "refs = map (definition_of_result symb) rs"
    using html_getCrossReferences_Inr by blast
  then show "\<forall>r\<in>set refs. ref_type r = definition_type"
    by (simp add: definition_of_result_def)
next
  assume "fst (rest_getCrossReferences baseUrl up' symb proj log) = Inr refs'"
  then obtain es where "refs' = reference_entries symb es []"
    using rest_getCrossReferences_Inr by blast
  then show "\<forall>r\<in>set refs'. ref_type r = reference_type"
    using reference_entries_types by blast
qed

lemma parse_two_anchors:
  "parseSearchResults ''<a class=\"s\" href=\"/xref/a.c#7\">x</a><a class=\"s\" href=\"/xref/b.c#9\">y</a>'' (Some ''p'')
   = [\<lparr>path = ''a.c'', line = Finite 7, snippet = ''x'', project = ''p''\<rparr>,
      \<lparr>path = ''b.c'', line = Finite 9, snippet = ''y'', project = ''p''\<rparr>]"
  by code_simp

lemma html_xref_example:
  "fst (html_getCrossReferences ''http://opengrok.example''
         (\<lambda>log req. Response 200
            ''<a class=\"s\" href=\"/xref/a.c#7\">x</a><a class=\"s\" href=\"/xref/b.c#9\">y</a>'')
         ''x'' (Some ''p'') [])
   = Inr [\<lparr>ref_symbol = ''x'', ref_file = ''a.c'', ref_line = Finite 7, ref_type = definition_type\<rparr>,
          \<lparr>ref_symbol = ''x'', ref_file = ''b.c'', ref_line = Finite 9, ref_type = definition_type\<rparr>]"
  by (simp add: html_getCrossReferences_def client_get_def settle_def html_client_config_def
        rethrow_def parse_two_anchors definition_of_result_def)

lemma rest_xref_example:
  "fst (rest_getCrossReferences ''http://opengrok.example''
         (\<lambda>log req. Response 200
            \<lparr>time = 1, resultCount = 2, startDocument = 0, endDocument = 1,
             results = [(''a.c'', [\<lparr>hit_line = ''x'', lineNumber = ''7'', tag = []\<rparr>]),
                        (''b.c'', [\<lparr>hit_line = ''y'', lineNumber = ''9'', tag = []\<rparr>])]\<rparr>)
         ''x'' (Some ''p'') [])
   = Inr [\<lparr>ref_symbol = ''x'', ref_file = ''a.c'', ref_line = Finite 7, ref_type = reference_type\<rparr>,
          \<lparr>ref_symbol = ''x'', ref_file = ''b.c'', ref_line = Finite 9, ref_type = reference_type\<rparr>]"
  by (simp add: rest_getCrossReferences_def api_search_def client_get_def settle_def
        api_client_config_def rethrow_def reference_of_hit_def parseInt_7 parseInt_9)

theorem cross_reference_type_fixed_by_backend_witness:
  "fst (html_getCrossReferences ''http://opengrok.example''
         (\<lambda>log req. Response 200
            ''<a class=\"s\" href=\"/xref/a.c#7\">x</a><a class=\"s\" href=\"/xref/b.c#9\">y</a>'')
         ''x'' (Some ''p'') [])
   = Inr [\<lparr>ref_symbol = ''x'', ref_file = ''a.c'', ref_line = Finite 7, ref_type = definition_type\<rparr>,
          \<lparr>ref_symbol = ''x'', ref_file = ''b.c'', ref_line = Finite 9, ref_type = definition_type\<rparr>]
   \<and> fst (rest_getCrossReferences ''http://opengrok.example''
         (\<lambda>log req. Response 200
            \<lparr>time = 1, resultCount = 2, startDocument = 0, endDocument = 1,
             results = [(''a.c'', [\<lparr>hit_line = ''x'', lineNumber = ''7'', tag = []\<rparr>]),
                        (''b.c'', [\<lparr>hit_line = ''y'', lineNumber = ''9'', tag = []\<rparr>])]\<rparr>)
         ''x'' (Some ''p'') [])
   = Inr [\<lparr>ref_symbol = ''x'', ref_file = ''a.c'', ref_line = Finite 7, ref_type = reference_type\<rparr>,
          \<lparr>ref_symbol = ''x'', ref_file = ''b.c'', ref_line = Finite 9, ref_type = reference_type\<rparr>]
   \<and> list_all (\<lambda>r. ref_type r = definition_type)
        [\<lparr>ref_symbol = ''x'', ref_file = ''a.c'', ref_line = Finite 7, ref_type = definition_type\<rparr>,
         \<lparr>ref_symbol = ''x'', ref_file = ''b.c'', ref_line = Finite 9, ref_type = definition_type\<rparr>]
   \<and> list_all (\<lambda>r. ref_type r = reference_type)
        [\<lparr>ref_symbol = ''x'', ref_file = ''a.c'', ref_line = Finite 7, ref_type = reference_type\<rparr>,
         \<lparr>ref_symbol = ''x'', ref_file = ''b.c'', ref_line = Finite 9, ref_type = reference_type\<rparr>]"
  using cross_reference_type_fixed_by_backend [of
      "''http://opengrok.example''"
      "\<lambda>log req. Response 200
            ''<a class=\"s\" href=\"/xref/a.c#7\">x</a><a class=\"s\" href=\"/xref/b.c#9\">y</a>''"
      "''x''" "Some ''p''" "[]"
      "[\<lparr>ref_symbol = ''x'', ref_file = ''a.c'', ref_line = Finite 7, ref_type = definition_type\<rparr>,
        \<lparr>ref_symbol = ''x'', ref_file = ''b.c'', ref_line = Finite 9, ref_type = definition_type\<rparr>]"
      "\<lambda>log req. Response 200
            \<lparr>time = 1, resultCount = 2, startDocument = 0, endDocument = 1,
             results = [(''a.c'', [\<lparr>hit_line = ''x'', lineNumber = ''7'', tag = []\<rparr>]),
                        (''b.c'', [\<lparr>hit_line = ''y'', lineNumber = ''9'', tag = []\<rparr>])]\<rparr>"
      "[\<lparr>ref_symbol = ''x'', ref_file = ''a.c'', ref_line = Finite 7, ref_type = reference_type\<rparr>,
        \<lparr>ref_symbol = ''x'', ref_file = ''b.c'', ref_line = Finite 9, ref_type = reference_type\<rparr>]"]
    html_xref_example rest_xref_example
  by simp

section \<open>Properties: credential holder\<close>

lemma join_holds_each: "x \<in> set xs \<Longrightarrow> sublist x (join sep xs)"
proof (induction sep xs rule: join.induct)
  case (1 sep)
  then show ?case by simp
next
  case (2 sep y)
  then show ?case by simp
next
  case (3 sep y z zs)
  show ?case
  proof (cases "x = y")
    case True
    then show ?thesis by (simp add: sublist_appendI[of x "[]", simplified])
  next
    case False
    then have "sublist x (join sep (z # zs))" using 3 by simp
    then have "sublist x ((y @ sep) @ join sep (z # zs))"
      using sublist_append by blast
    then show ?thesis by simp
  qed
qed

lemma load_a1_b2:
  "loadCookiesFromString ''a=1; b=2'' []
     = [\<lparr>cookie_key = ''a'', cookie_value = ''1''\<rparr>, \<lparr>cookie_key = ''b'', cookie_value = ''2''\<rparr>]"
  by (simp add: loadCookiesFromString_def setCookieSync_def parse_cookie_def trim_def
        is_space_def)

text \<open>
  C9: loading \<open>a=1; b=2\<close> into a fresh holder and serializing gives one string, joined
  with \<open>"; "\<close>, that contains both \<open>a=1\<close> and \<open>b=2\<close>, in whatever order the jar
  iterates over the cookies it holds.
\<close>

theorem cookie_round_trip:
  assumes "set (iteration (loadCookiesFromString ''a=1; b=2'' []))
             = set (loadCookiesFromString ''a=1; b=2'' [])"
  shows "str_includes (getCookieString iteration (loadCookiesFromString ''a=1; b=2'' [])) ''a=1''
       \<and> str_includes (getCookieString iteration (loadCookiesFromString ''a=1; b=2'' [])) ''b=2''"
proof -
  let ?jar = "loadCookiesFromString ''a=1; b=2'' []"
  let ?strings = "map cookieString (iteration ?jar)"
  have "set ?strings = cookieString ` set ?jar"
    using assms by simp
  then have "''a=1'' \<in> set ?strings" and "''b=2'' \<in> set ?strings"
    by (simp_all add: load_a1_b2 cookieString_def)
  then have "sublist ''a=1'' (join ''; '' ?strings)" and "sublist ''b=2'' (join ''; '' ?strings)"
    by (simp_all only: join_holds_each)
  then show ?thesis
    by (simp add: getCookieString_def getCookiesSync_def str_includes_sublist)
qed

theorem cookie_round_trip_witness:
  "getCookieString (\<lambda>cookies. cookies) (loadCookiesFromString ''a=1; b=2'' []) = ''a=1; b=2''
   \<and> getCookieString rev (loadCookiesFromString ''a=1; b=2'' []) = ''b=2; a=1''
   \<and> str_includes ''a=1; b=2'' ''a=1'' \<and> str_includes ''a=1; b=2'' ''b=2''
   \<and> str_includes ''b=2; a=1'' ''a=1'' \<and> str_includes ''b=2; a=1'' ''b=2''"
  using cookie_round_trip [of "\<lambda>cookies. cookies"] cookie_round_trip [of rev]
  by (simp add: load_a1_b2 getCookieString_def getCookiesSync_def cookieString_def)

section \<open>Properties: HTML normalizer\<close>

lemma parse_loop_distinct:
  assumes "distinct (map (\<lambda>r. result_key (path r) (line r)) acc)"
    and "seen = set (map (\<lambda>r. result_key (path r) (line r)) acc)"
  shows "distinct (map (\<lambda>r. result_key (path r) (line r)) (parse_loop ms proj seen acc))"
  using assms
proof (induction ms arbitrary: seen acc)
  case Nil
  then show ?case by simp
next
  case (Cons m ms)
  show ?case
  proof (cases "result_key (fst m) (or_zero (parseInt (fst (snd m)))) \<in> seen")
    case True
    then show ?thesis using Cons by (simp add: Let_def)
  next
    case False
    let ?r = "\<lparr>path = fst m, line = or_zero (parseInt (fst (snd m))),
               snippet = snd (snd m), project = or_default proj ''unknown''\<rparr>"
    have d: "distinct (map (\<lambda>r. result_key (path r) (line r)) (acc @ [?r]))"
      using False Cons.prems by simp
    have s: "insert (result_key (fst m) (or_zero (parseInt (fst (snd m))))) seen
               = set (map (\<lambda>r. result_key (path r) (line r)) (acc @ [?r]))"
      using Cons.prems(2) by simp
    show ?thesis
      using False Cons.IH[OF d s] by (simp add: Let_def)
  qed
qed

lemma distinct_map_inner: "distinct (map (\<lambda>x. f (g x)) xs) \<Longrightarrow> distinct (map g xs)"
  by (induction xs) auto

text \<open>The html normalizer does keep the invariant of C2: no two records of one result
  list share their (path, line) pair.\<close>

lemma parseSearchResults_unique:
  "distinct (map (\<lambda>r. (path r, line r)) (parseSearchResults html proj))"
proof -
  have "distinct (map (\<lambda>r. result_key (path r) (line r)) (parseSearchResults html proj))"
    unfolding parseSearchResults_def by (rule parse_loop_distinct) simp_all
  then have "distinct (map (\<lambda>r. (\<lambda>(p, l). result_key p l) (path r, line r))
                         (parseSearchResults html proj))"
    by simp
  then show ?thesis by (rule distinct_map_inner)
qed

lemma parseSearchResults_first_wins:
  "parseSearchResults
     ''<a class=\"s\" href=\"/xref/a.c#7\">x</a><a class=\"s\" href=\"/xref/a.c#7\">y</a>'' (Some ''p'')
   = [\<lparr>path = ''a.c'', line = Finite 7, snippet = ''x'', project = ''p''\<rparr>]"
  by code_simp

section \<open>Properties: authentication failures\<close>

lemma outcome_status_Some: "outcome_status out = Some s \<longleftrightarrow> (\<exists>d. out = Response s d)"
  by (cases out) (auto simp: outcome_status_def)

lemma answered_with_snoc:
  "answered_with up (log @ [req]) s \<longleftrightarrow> outcome_status (up log req) = Some s"
  by (simp add: answered_with_def)

lemma answered_with_Nil: "\<not> answered_with up [] s"
  by (simp add: answered_with_def)

lemma settle_html_Response:
  "settle (html_client_config baseUrl) (Response s d) = Inr \<lparr>status = s, data = d\<rparr>"
  by (simp add: settle_def html_client_config_def)

lemma settle_api_auth:
  "s = 401 \<or> s = 403 \<Longrightarrow>
   settle (api_client_config baseUrl) (Response s d) = Inr \<lparr>status = s, data = d\<rparr>"
  by (auto simp: settle_def api_client_config_def)

lemma snd_api_get_checked: "snd (api_get_checked baseUrl up stem req log) = log @ [req]"
  by (simp add: api_get_checked_def client_get_def)

lemma api_get_checked_auth:
  assumes "s = 401 \<or> s = 403" and "outcome_status (up log req) = Some s"
  shows "fst (api_get_checked baseUrl up stem req log) =
           Inl (stem @ '': Authentication failed ('' @ show_nat s @ ''). Update OPENGROK_COOKIES.'')"
  using assms
  by (auto simp: api_get_checked_def client_get_def settle_api_auth rethrow_def
        outcome_status_Some)

lemma rethrow_Inl: "rethrow pre (Inl m) = Inl (pre @ m)"
  by (simp add: rethrow_def)

lemma html_search_auth:
  assumes "s = 401 \<or> s = 403"
    and "answered_with uh (snd (html_search baseUrl uh query proj searchType language maxResults [])) s"
  shows "fst (html_search baseUrl uh query proj searchType language maxResults []) =
           Inl (''OpenGrok search failed: Authentication failed ('' @ show_nat s
                @ ''). Your session cookies have expired. See console for instructions.'')"
  using assms
  by (cases "proj = []")
     (auto simp: html_search_def client_get_def answered_with_snoc[of _ "[]", simplified]
        answered_with_Nil outcome_status_Some settle_html_Response rethrow_Inl)

lemma html_getFileContent_auth:
  assumes "s = 401 \<or> s = 403"
    and "answered_with uh (snd (html_getFileContent baseUrl uh fpath proj_opt [])) s"
  shows "fst (html_getFileContent baseUrl uh fpath proj_opt []) =
           Inl (''Failed to get file content: Authentication failed ('' @ show_nat s
                @ ''). Update OPENGROK_COOKIES.'')"
proof (cases "uh [] \<lparr>url = ''/xref/'' @ fpath, params = []\<rparr>")
  case (NetworkError m)
  then show ?thesis
    using assms(2)
    by (simp add: html_getFileContent_def client_get_def settle_def
          answered_with_snoc[of _ "[]", simplified] outcome_status_def)
next
  case (Response s1 d1)
  show ?thesis
  proof (cases "s1 = 404 \<and> truthy proj_opt")
    case True
    then show ?thesis
      using assms Response
      by (auto simp: html_getFileContent_def client_get_def settle_html_Response
            answered_with_snoc[of _ "[x]" for x, simplified] outcome_status_Some rethrow_Inl)
  next
    case False
    then show ?thesis
      using assms Response
      by (auto simp: html_getFileContent_def client_get_def settle_html_Response
            answered_with_snoc[of _ "[]", simplified] outcome_status_def rethrow_Inl)
  qed
qed


lemma rest_getFileContent_auth:
  assumes "s = 401 \<or> s = 403"
    and "answered_with uh (snd (rest_getFileContent baseUrl uh fpath proj_opt [])) s"
  shows "fst (rest_getFileContent baseUrl uh fpath proj_opt []) =
           Inl (''Failed to get file content: Failed to get file content: Authentication failed (''
                @ show_nat s @ ''). Update OPENGROK_COOKIES.'')"
  using assms
  by (simp add: rest_getFileContent_def api_getFileContent_def case_prod_beta snd_api_get_checked
        answered_with_snoc[of _ "[]", simplified] api_get_checked_auth rethrow_Inl)

lemma rest_listProjects_auth:
  assumes "s = 401 \<or> s = 403"
    and "answered_with ur (snd (rest_listProjects baseUrl ur [])) s"
  shows "fst (rest_listProjects baseUrl ur []) =
           Inl (''Failed to list projects: Failed to get projects: Authentication failed (''
                @ show_nat s @ ''). Update OPENGROK_COOKIES.'')"
  using assms
  by (simp add: rest_listProjects_def api_getProjects_def case_prod_beta snd_api_get_checked
        answered_with_snoc[of _ "[]", simplified] api_get_checked_auth rethrow_Inl)

lemma rest_getAnnotation_auth:
  assumes "s = 401 \<or> s = 403"
    and "answered_with ur (snd (rest_getAnnotation baseUrl ur fpath [])) s"
  shows "fst (rest_getAnnotation baseUrl ur fpath []) =
           Inl (''Failed to get annotation: Failed to get annotation: Authentication failed (''
                @ show_nat s @ ''). Update OPENGROK_COOKIES.'')"
  using assms
  by (simp add: rest_getAnnotation_def api_getAnnotation_def case_prod_beta snd_api_get_checked
        answered_with_snoc[of _ "[]", simplified] api_get_checked_auth rethrow_Inl)

lemma rest_getDirectoryListing_auth:
  assumes "s = 401 \<or> s = 403"
    and "answered_with ur (snd (rest_getDirectoryListing baseUrl ur fpath [])) s"
  shows "fst (rest_getDirectoryListing baseUrl ur fpath []) =
           Inl (''Failed to get directory listing: Failed to get directory listing: Authentication failed (''
                @ show_nat s @ ''). Update OPENGROK_COOKIES.'')"
  using assms
  by (simp add: rest_getDirectoryListing_def api_getDirectoryListing_def case_prod_beta snd_api_get_checked
        answered_with_snoc[of _ "[]", simplified] api_get_checked_auth rethrow_Inl)

lemma rest_getHistory_auth:
  assumes "s = 401 \<or> s = 403"
    and "answered_with ur (snd (rest_getHistory baseUrl ur fpath withFiles start maxEntries [])) s"
  shows "fst (rest_getHistory baseUrl ur fpath withFiles start maxEntries []) =
           Inl (''Failed to get history: Failed to get history: Authentication failed (''
                @ show_nat s @ ''). Update OPENGROK_COOKIES.'')"
  using assms
  by (simp add: rest_getHistory_def api_getHistory_def case_prod_beta snd_api_get_checked
        answered_with_snoc[of _ "[]", simplified] api_get_checked_auth rethrow_Inl)

lemma rest_getFileDefinitions_auth:
  assumes "s = 401 \<or> s = 403"
    and "answered_with ur (snd (rest_getFileDefinitions baseUrl ur fpath [])) s"
  shows "fst (rest_getFileDefinitions baseUrl ur fpath []) =
           Inl (''Failed to get file definitions: Failed to get file definitions: Authentication failed (''
                @ show_nat s @ ''). Update OPENGROK_COOKIES.'')"
  using assms
  by (simp add: rest_getFileDefinitions_def api_getFileDefinitions_def case_prod_beta snd_api_get_checked
        answered_with_snoc[of _ "[]", simplified] api_get_checked_auth rethrow_Inl)

lemma rest_getFileGenre_auth:
  assumes "s = 401 \<or> s = 403"
    and "answered_with ur (snd (rest_getFileGenre baseUrl ur fpath [])) s"
  shows "fst (rest_getFileGenre baseUrl ur fpath []) =
           Inl (''Failed to get file genre: Failed to get file genre: Authentication failed (''
                @ show_nat s @ ''). Update OPENGROK_COOKIES.'')"
  using assms
  by (simp add: rest_getFileGenre_def api_getFileGenre_def case_prod_beta snd_api_get_checked
        answered_with_snoc[of _ "[]", simplified] api_get_checked_auth rethrow_Inl)

lemma rest_getIndexedProjects_auth:
  assumes "s = 401 \<or> s = 403"
    and "answered_with ur (snd (rest_getIndexedProjects baseUrl ur [])) s"
  shows "fst (rest_getIndexedProjects baseUrl ur []) =
           Inl (''Failed to get indexed projects: Failed to get indexed projects: Authentication failed (''
                @ show_nat s @ ''). Update OPENGROK_COOKIES.'')"
  using assms
  by (simp add: rest_getIndexedProjects_def api_getIndexedProjects_def case_prod_beta snd_api_get_checked
        answered_with_snoc[of _ "[]", simplified] api_get_checked_auth rethrow_Inl)

lemma rest_getProjectRepositories_auth:
  assumes "s = 401 \<or> s = 403"
    and "answered_with ur (snd (rest_getProjectRepositories baseUrl ur proj [])) s"
  shows "fst (rest_getProjectRepositories baseUrl ur proj []) =
           Inl (''Failed to get project repositories: Failed to get project repositories: Authentication failed (''
                @ show_nat s @ ''). Update OPENGROK_COOKIES.'')"
  using assms
  by (simp add: rest_getProjectRepositories_def api_getProjectRepositories_def case_prod_beta snd_api_get_checked
        answered_with_snoc[of _ "[]", simplified] api_get_checked_auth rethrow_Inl)

lemma rest_getProjectRepositoryTypes_auth:
  assumes "s = 401 \<or> s = 403"
    and "answered_with ur (snd (rest_getProjectRepositoryTypes baseUrl ur proj [])) s"
  shows "fst (rest_getProjectRepositoryTypes baseUrl ur proj []) =
           Inl (''Failed to get project repository types: Failed to get project repository types: Authentication failed (''
                @ show_nat s @ ''). Update OPENGROK_COOKIES.'')"
  using assms
  by (simp add: rest_getProjectRepositoryTypes_def api_getProjectRepositoryTypes_def case_prod_beta snd_api_get_checked
        answered_with_snoc[of _ "[]", simplified] api_get_checked_auth rethrow_Inl)

lemma rest_getProjectIndexedFiles_auth:
  assumes "s = 401 \<or> s = 403"
    and "answered_with ur (snd (rest_getProjectIndexedFiles baseUrl ur proj [])) s"
  shows "fst (rest_getProjectIndexedFiles baseUrl ur proj []) =
           Inl (''Failed to get project indexed files: Failed to get project indexed files: Authentication failed (''
                @ show_nat s @ ''). Update OPENGROK_COOKIES.'')"
  using assms
  by (simp add: rest_getProjectIndexedFiles_def api_getProjectIndexedFiles_def case_prod_beta snd_api_get_checked
        answered_with_snoc[of _ "[]", simplified] api_get_checked_auth rethrow_Inl)

lemma rest_getLastIndexTime_auth:
  assumes "s = 401 \<or> s = 403"
    and "answered_with ur (snd (rest_getLastIndexTime baseUrl ur [])) s"
  shows "fst (rest_getLastIndexTime baseUrl ur []) =
           Inl (''Failed to get last index time: Failed to get last index time: Authentication failed (''
                @ show_nat s @ ''). Update OPENGROK_COOKIES.'')"
  using assms
  by (simp add: rest_getLastIndexTime_def api_getLastIndexTime_def case_prod_beta snd_api_get_checked
        answered_with_snoc[of _ "[]", simplified] api_get_checked_auth rethrow_Inl)

lemma html_getCrossReferences_auth:
  assumes "s = 401 \<or> s = 403"
    and "answered_with uh (snd (html_getCrossReferences baseUrl uh symb proj_opt [])) s"
  shows "fst (html_getCrossReferences baseUrl uh symb proj_opt []) =
           Inl (''Failed to get cross-references: Authentication failed (''
                @ show_nat s @ ''). Update OPENGROK_COOKIES.'')"
  using assms
  by (auto simp: html_getCrossReferences_def client_get_def
        answered_with_snoc[of _ "[]", simplified] outcome_status_Some settle_html_Response
        rethrow_Inl)

lemma html_listProjects_auth:
  assumes "s = 401 \<or> s = 403"
    and "answered_with uh (snd (html_listProjects baseUrl uh [])) s"
  shows "fst (html_listProjects baseUrl uh []) =
           Inl (''Failed to list projects: Authentication failed (''
                @ show_nat s @ ''). Update OPENGROK_COOKIES.'')"
  using assms
  by (auto simp: html_listProjects_def client_get_def
        answered_with_snoc[of _ "[]", simplified] outcome_status_Some settle_html_Response
        rethrow_Inl)

lemma rest_ping_auth:
  assumes "s = 401 \<or> s = 403"
    and "answered_with ur (snd (rest_ping baseUrl ur [])) s"
  shows "fst (rest_ping baseUrl ur []) = Inr False"
  using assms
  by (cases "ur [] \<lparr>url = ''/system/ping'', params = []\<rparr>")
     (auto simp: rest_ping_def api_ping_def client_get_def settle_def api_client_config_def
        answered_with_def outcome_status_def)

text \<open>
  The liveness check is the one operation that never fails: answered with status 401, it
  returns the value \<open>false\<close>.
\<close>

lemma ping_401_returns_false:
  "rest_ping ''http://opengrok.example'' (\<lambda>log req. Response 401 ''denied'') []
     = (Inr False, [\<lparr>url = ''/system/ping'', params = []\<rparr>])"
  by (simp add: rest_ping_def api_ping_def client_get_def settle_def api_client_config_def)

text \<open>
  Where the status is inspected for 401 and 403: answered with either status, every
  operation of the html-scrape facade (search, getFileContent, getCrossReferences,
  listProjects) and the operations getFileContent, listProjects, getAnnotation,
  getDirectoryListing, getHistory, getFileDefinitions, getFileGenre, getIndexedProjects,
  getProjectRepositories, getProjectRepositoryTypes, getProjectIndexedFiles and
  getLastIndexTime of the rest-api facade fail with the authentication message, which
  names the status and says how to refresh the credentials; \<open>ping\<close> returns \<open>false\<close>.
\<close>

lemma authentication_failure_detected:
  assumes "s = 401 \<or> s = 403"
  shows "(answered_with uh (snd (html_search baseUrl uh query proj searchType language maxResults [])) s \<longrightarrow>
      fst (html_search baseUrl uh query proj searchType language maxResults []) =
        Inl (''OpenGrok search failed: Authentication failed (''
                @ show_nat s @ ''). Your session cookies have expired. See console for instructions.''))
   \<and> (answered_with uh (snd (html_getFileContent baseUrl uh fpath proj_opt [])) s \<longrightarrow>
      fst (html_getFileContent baseUrl uh fpath proj_opt []) =
        Inl (''Failed to get file content: Authentication failed (''
                @ show_nat s @ ''). Update OPENGROK_COOKIES.''))
   \<and> (answered_with uh (snd (html_getCrossReferences baseUrl uh symb proj_opt [])) s \<longrightarrow>
      fst (html_getCrossReferences baseUrl uh symb proj_opt []) =
        Inl (''Failed to get cross-references: Authentication failed (''
                @ show_nat s @ ''). Update OPENGROK_COOKIES.''))
   \<and> (answered_with uh (snd (html_listProjects baseUrl uh [])) s \<longrightarrow>
      fst (html_listProjects baseUrl uh []) =
        Inl (''Failed to list projects: Authentication failed (''
                @ show_nat s @ ''). Update OPENGROK_COOKIES.''))
   \<and> (answered_with uh (snd (rest_getFileContent baseUrl uh fpath proj_opt [])) s \<longrightarrow>
      fst (rest_getFileContent baseUrl uh fpath proj_opt []) =
        Inl (''Failed to get file content: Failed to get file content: Authentication failed (''
                @ show_nat s @ ''). Update OPENGROK_COOKIES.''))
   \<and> (answered_with ur (snd (rest_listProjects baseUrl ur [])) s \<longrightarrow>
      fst (rest_listProjects baseUrl ur []) =
        Inl (''Failed to list projects: Failed to get projects: Authentication failed (''
                @ show_nat s @ ''). Update OPENGROK_COOKIES.''))
   \<and> (answered_with ur (snd (rest_getAnnotation baseUrl ur fpath [])) s \<longrightarrow>
      fst (rest_getAnnotation baseUrl ur fpath []) =
        Inl (''Failed to get annotation: Failed to get annotation: Authentication failed (''
                @ show_nat s @ ''). Update OPENGROK_COOKIES.''))
   \<and> (answered_with ur (snd (rest_getDirectoryListing baseUrl ur fpath [])) s \<longrightarrow>
      fst (rest_getDirectoryListing baseUrl ur fpath []) =
        Inl (''Failed to get directory listing: Failed to get directory listing: Authentication failed (''
                @ show_nat s @ ''). Update OPENGROK_COOKIES.''))
   \<and> (answered_with ur (snd (rest_getHistory baseUrl ur fpath withFiles start maxEntries [])) s \<longrightarrow>
      fst (rest_getHistory baseUrl ur fpath withFiles start maxEntries []) =
        Inl (''Failed to get history: Failed to get history: Authentication failed (''
                @ show_nat s @ ''). Update OPENGROK_COOKIES.''))
   \<and> (answered_with ur (snd (rest_getFileDefinitions baseUrl ur fpath [])) s \<longrightarrow>
      fst (rest_getFileDefinitions baseUrl ur fpath []) =
        Inl (''Failed to get file definitions: Failed to get file definitions: Authentication failed (''
                @ show_nat s @ ''). Update OPENGROK_COOKIES.''))
   \<and> (answered_with ur (snd (rest_getFileGenre baseUrl ur fpath [])) s \<longrightarrow>
      fst (rest_getFileGenre baseUrl ur fpath []) =
        Inl (''Failed to get file genre: Failed to get file genre: Authentication failed (''
                @ show_nat s @ ''). Update OPENGROK_COOKIES.''))
   \<and> (answered_with ur (snd (rest_getIndexedProjects baseUrl ur [])) s \<longrightarrow>
      fst (rest_getIndexedProjects baseUrl ur []) =
        Inl (''Failed to get indexed projects: Failed to get indexed projects: Authentication failed (''
                @ show_nat s @ ''). Update OPENGROK_COOKIES.''))
   \<and> (answered_with ur (snd (rest_getProjectRepositories baseUrl ur proj [])) s \<longrightarrow>
      fst (rest_getProjectRepositories baseUrl ur proj []) =
        Inl (''Failed to get project repositories: Failed to get project repositories: Authentication failed (''
                @ show_nat s @ ''). Update OPENGROK_COOKIES.''))
   \<and> (answered_with ur (snd (rest_getProjectRepositoryTypes baseUrl ur proj [])) s \<longrightarrow>
      fst (rest_getProjectRepositoryTypes baseUrl ur proj []) =
        Inl (''Failed to get project repository types: Failed to get project repository types: Authentication failed (''
                @ show_nat s @ ''). Update OPENGROK_COOKIES.''))
   \<and> (answered_with ur (snd (rest_getProjectIndexedFiles baseUrl ur proj [])) s \<longrightarrow>
      fst (rest_getProjectIndexedFiles baseUrl ur proj []) =
        Inl (''Failed to get project indexed files: Failed to get project indexed files: Authentication failed (''
                @ show_nat s @ ''). Update OPENGROK_COOKIES.''))
   \<and> (answered_with ur (snd (rest_getLastIndexTime baseUrl ur [])) s \<longrightarrow>
      fst (rest_getLastIndexTime baseUrl ur []) =
        Inl (''Failed to get last index time: Failed to get last index time: Authentication failed (''
                @ show_nat s @ ''). Update OPENGROK_COOKIES.''))
   \<and> (answered_with ur (snd (rest_ping baseUrl ur [])) s \<longrightarrow>
      fst (rest_ping baseUrl ur []) = Inr False)"
  by (intro conjI impI)
     (erule html_search_auth[OF assms] html_getFileContent_auth[OF assms]
        html_getCrossReferences_auth[OF assms] html_listProjects_auth[OF assms]
        rest_getFileContent_auth[OF assms] rest_listProjects_auth[OF assms]
        rest_getAnnotation_auth[OF assms] rest_getDirectoryListing_auth[OF assms]
        rest_getHistory_auth[OF assms] rest_getFileDefinitions_auth[OF assms]
        rest_getFileGenre_auth[OF assms] rest_getIndexedProjects_auth[OF assms]
        rest_getProjectRepositories_auth[OF assms] rest_getProjectRepositoryTypes_auth[OF assms]
        rest_getProjectIndexedFiles_auth[OF assms] rest_getLastIndexTime_auth[OF assms]
        rest_ping_auth[OF assms])+

lemma authentication_failure_detected_example:
  "fst (html_search ''http://opengrok.example'' (\<lambda>log req. Response 401 ''denied'') ''x'' ''p'' search_full None 50 []) =
       Inl ''OpenGrok search failed: Authentication failed (401). Your session cookies have expired. See console for instructions.''
   \<and> fst (html_getFileContent ''http://opengrok.example'' (\<lambda>log req. Response 401 ''denied'') ''a.c'' (Some ''p'') []) =
       Inl ''Failed to get file content: Authentication failed (401). Update OPENGROK_COOKIES.''
   \<and> fst (html_getCrossReferences ''http://opengrok.example'' (\<lambda>log req. Response 401 ''denied'') ''x'' (Some ''p'') []) =
       Inl ''Failed to get cross-references: Authentication failed (401). Update OPENGROK_COOKIES.''
   \<and> fst (html_listProjects ''http://opengrok.example'' (\<lambda>log req. Response 401 ''denied'') []) =
       Inl ''Failed to list projects: Authentication failed (401). Update OPENGROK_COOKIES.''
   \<and> fst (rest_getFileContent ''http://opengrok.example'' (\<lambda>log req. Response 401 ''denied'') ''a.c'' (Some ''p'') []) =
       Inl ''Failed to get file content: Failed to get file content: Authentication failed (401). Update OPENGROK_COOKIES.''
   \<and> fst (rest_listProjects ''http://opengrok.example'' (\<lambda>log req. Response 401 ()) []) =
       Inl ''Failed to list projects: Failed to get projects: Authentication failed (401). Update OPENGROK_COOKIES.''
   \<and> fst (rest_getAnnotation ''http://opengrok.example'' (\<lambda>log req. Response 401 ()) ''a.c'' []) =
       Inl ''Failed to get annotation: Failed to get annotation: Authentication failed (401). Update OPENGROK_COOKIES.''
   \<and> fst (rest_getDirectoryListing ''http://opengrok.example'' (\<lambda>log req. Response 401 ()) ''a.c'' []) =
       Inl ''Failed to get directory listing: Failed to get directory listing: Authentication failed (401). Update OPENGROK_COOKIES.''
   \<and> fst (rest_getHistory ''http://opengrok.example'' (\<lambda>log req. Response 401 ()) ''a.c'' None None None []) =
       Inl ''Failed to get history: Failed to get history: Authentication failed (401). Update OPENGROK_COOKIES.''
   \<and> fst (rest_getFileDefinitions ''http://opengrok.example'' (\<lambda>log req. Response 401 ()) ''a.c'' []) =
       Inl ''Failed to get file definitions: Failed to get file definitions: Authentication failed (401). Update OPENGROK_COOKIES.''
   \<and> fst (rest_getFileGenre ''http://opengrok.example'' (\<lambda>log req. Response 401 ()) ''a.c'' []) =
       Inl ''Failed to get file genre: Failed to get file genre: Authentication failed (401). Update OPENGROK_COOKIES.''
   \<and> fst (rest_getIndexedProjects ''http://opengrok.example'' (\<lambda>log req. Response 401 ()) []) =
       Inl ''Failed to get indexed projects: Failed to get indexed projects: Authentication failed (401). Update OPENGROK_COOKIES.''
   \<and> fst (rest_getProjectRepositories ''http://opengrok.example'' (\<lambda>log req. Response 401 ()) ''p'' []) =
       Inl ''Failed to get project repositories: Failed to get project repositories: Authentication failed (401). Update OPENGROK_COOKIES.''
   \<and> fst (rest_getProjectRepositoryTypes ''http://opengrok.example'' (\<lambda>log req. Response 401 ()) ''p'' []) =
       Inl ''Failed to get project repository types: Failed to get project repository types: Authentication failed (401). Update OPENGROK_COOKIES.''
   \<and> fst (rest_getProjectIndexedFiles ''http://opengrok.example'' (\<lambda>log req. Response 401 ()) ''p'' []) =
       Inl ''Failed to get project indexed files: Failed to get project indexed files: Authentication failed (401). Update OPENGROK_COOKIES.''
   \<and> fst (rest_getLastIndexTime ''http://opengrok.example'' (\<lambda>log req. Response 401 ()) []) =
       Inl ''Failed to get last index time: Failed to get last index time: Authentication failed (401). Update OPENGROK_COOKIES.''
   \<and> fst (rest_ping ''http://opengrok.example'' (\<lambda>log req. Response 401 ()) []) = Inr False"
  using authentication_failure_detected [where s = 401
      and baseUrl = "''http://opengrok.example''"
      and uh = "\<lambda>log req. Response 401 ''denied''"
      and ur = "\<lambda>log req. Response 401 ()"
      and query = "''x''" and proj = "''p''" and searchType = search_full
      and language = None and maxResults = 50 and fpath = "''a.c''"
      and proj_opt = "Some ''p''" and symb = "''x''" and withFiles = None
      and start = None and maxEntries = None]
  by (simp add: show_nat_401 answered_with_def outcome_status_def client_get_def
        api_get_checked_def truthy_def settle_def html_client_config_def
        api_client_config_def rethrow_def
        html_search_def html_getFileContent_def html_getCrossReferences_def
        html_listProjects_def rest_getFileContent_def rest_listProjects_def
        rest_getAnnotation_def rest_getDirectoryListing_def rest_getHistory_def
        rest_getFileDefinitions_def rest_getFileGenre_def rest_getIndexedProjects_def
        rest_getProjectRepositories_def rest_getProjectRepositoryTypes_def rest_getProjectIndexedFiles_def
        rest_getLastIndexTime_def api_getFileContent_def api_getProjects_def
        api_getAnnotation_def api_getDirectoryListing_def api_getHistory_def
        api_getFileDefinitions_def api_getFileGenre_def api_getIndexedProjects_def
        api_getProjectRepositories_def api_getProjectRepositoryTypes_def api_getProjectIndexedFiles_def
        api_getLastIndexTime_def rest_ping_def api_ping_def)

text \<open>
  \<open>OpenGrokApiClient.search\<close> inspects the status for 200 only. Whatever the upstream,
  when its answer to the search request has status 401 or 403, the search of the
  rest-api facade fails with the message of any other status.
\<close>

lemma rest_search_auth_status:
  assumes "s = 401 \<or> s = 403"
    and "answered_with up (snd (rest_search baseUrl up query proj searchType language maxResults [])) s"
  shows "fst (rest_search baseUrl up query proj searchType language maxResults []) =
           Inl (''OpenGrok search failed: Search failed: Search failed with status '' @ show_nat s)"
  using assms
  by (cases "proj = []")
     (auto simp: rest_search_def api_search_def client_get_def
        answered_with_snoc[of _ "[]", simplified] answered_with_Nil outcome_status_Some
        settle_api_auth rethrow_def)

text \<open>
  C1 at the search of the rest-api facade: answered with status 401 (or 403), the
  operation fails with the generic message \<open>Search failed with status 401\<close>, which
  carries no authentication classification and no remediation text, where the claim
  asks for the authentication failure. \<open>getCrossReferences\<close> of the rest-api facade goes
  through the same search and fails the same way. The html-scrape search and twelve
  other methods of \<open>OpenGrokApiClient\<close> test for 401 and 403 before they test for 200.
\<close>

theorem rest_search_401_generic_failure:
  "fst (rest_search ''http://opengrok.example''
         (\<lambda>log req. Response 401
            \<lparr>time = 0, resultCount = 0, startDocument = 0, endDocument = 0, results = []\<rparr>)
         ''x'' ''p'' search_full None 50 [])
     = Inl ''OpenGrok search failed: Search failed: Search failed with status 401''
   \<and> fst (rest_search ''http://opengrok.example''
         (\<lambda>log req. Response 403
            \<lparr>time = 0, resultCount = 0, startDocument = 0, endDocument = 0, results = []\<rparr>)
         ''x'' ''p'' search_full None 50 [])
     = Inl ''OpenGrok search failed: Search failed: Search failed with status 403''
   \<and> fst (rest_getCrossReferences ''http://opengrok.example''
         (\<lambda>log req. Response 401
            \<lparr>time = 0, resultCount = 0, startDocument = 0, endDocument = 0, results = []\<rparr>)
         ''x'' (Some ''p'') [])
     = Inl ''Failed to get cross-references: Search failed: Search failed with status 401''
   \<and> fst (html_search ''http://opengrok.example'' (\<lambda>log req. Response 401 ''denied'')
         ''x'' ''p'' search_full None 50 [])
     = Inl ''OpenGrok search failed: Authentication failed (401). Your session cookies have expired. See console for instructions.''"
  by (simp add: rest_search_def rest_getCrossReferences_def api_search_def html_search_def
        client_get_def settle_def api_client_config_def html_client_config_def rethrow_def
        show_nat_401 show_nat_403)

text \<open>\<open>getSuggestions\<close> and \<open>getVersion\<close> inspect the status for 200 only, too.\<close>

lemma rest_suggestions_version_401:
  "fst (rest_getSuggestions ''http://opengrok.example''
         (\<lambda>log req. Response 401
            \<lparr>suggester_time = 0, suggestions = [] :: string list, suggester_identifier = [],
             queryText = [], partialResult = False\<rparr>)
         ''x'' None ''full'' [])
     = Inl ''Failed to get suggestions: Get suggestions failed: Get suggestions failed with status 401''
   \<and> fst (rest_getVersion ''http://opengrok.example'' (\<lambda>log req. Response 401 ''denied'') [])
     = Inl ''Failed to get version: Failed to get version: Failed to get version: 401''"
  by (simp add: rest_getSuggestions_def api_getSuggestions_def rest_getVersion_def
        api_getVersion_def client_get_def settle_def api_client_config_def rethrow_def
        show_nat_401 truthy_def)

end
